theory Spec2Isabelle
  imports Main "HOL-Library.Sublist"
begin

section \<open>The Datature Hub model loader (\<^verbatim>\<open>datature_hub/hub.py\<close>)\<close>

text \<open>
  The loader resolves a model key at a registry, downloads an archive into a cache
  directory, verifies and unpacks it, and reads files of the unpacked cache. The
  embedding keeps the control flow of every method of \<^verbatim>\<open>HubModel\<close> and of the
  module's helper functions. What the code reaches through libraries is made explicit:

  \<^item> the file system is a map from paths to nodes, and each \<^verbatim>\<open>os\<close>, \<^verbatim>\<open>pathlib\<close>,
    \<^verbatim>\<open>shutil\<close> and \<^verbatim>\<open>zipfile\<close> call is a function on that map that returns the
    exception the call raises or the new map (no symbolic links, no permissions);
  \<^item> the network, SHA-256, the parser of zip archives, the home directory and the
    reading of a label map that is not ASCII are fields of a record \<open>world\<close>; every network call is appended to a log in the state;
  \<^item> an exception is a value \<open>Inl e\<close>, and a method that changes the world returns its
    result together with the new state;
  \<^item> what is written to \<^verbatim>\<open>sys.stderr\<close> is left out, and of the floating-point
    arithmetic of the progress bar only the division by zero is kept.
\<close>

subsection \<open>Exceptions\<close>

datatype json =
    JNull
  | JBool bool
  | JNum int
  | JStr string
  | JArr "json list"
  | JObj "(string \<times> json) list"

text \<open>
  \<^verbatim>\<open>ModelType\<close> has the single member \<^verbatim>\<open>TF\<close>; Python does not check the
  annotation of \<^verbatim>\<open>download_model\<close>, so the argument may be any other object, here
  \<open>Other_value\<close> with its textual form.
\<close>

datatype model_type = TF | Other_value string

text \<open>
  The argument of an exception. \<open>Msg\<close> is a message whose text the source fixes;
  the two f-strings of the source keep the values they interpolate; \<open>Library\<close> is the
  argument of an exception raised inside a library, which is not modelled.
\<close>

datatype message =
    Msg string
  | Checksum_mismatch string json
  | Invalid_model_type model_type
  | Library

text \<open>The exception classes that occur; all of them are subclasses of \<^verbatim>\<open>Exception\<close>.\<close>

datatype exn =
    HTTPError nat
  | RequestException
  | MissingSchema
  | JSONDecodeError
  | KeyError string
  | TypeError
  | RuntimeError message
  | ValueError message
  | ZeroDivisionError
  | StopIteration
  | BadZipFile
  | FileNotFoundError message
  | FileExistsError
  | NotADirectoryError
  | IsADirectoryError
  | UnicodeDecodeError

subsection \<open>The file system\<close>

type_synonym path = "string list"

datatype node = Dir | File string

type_synonym filesystem = "path \<Rightarrow> node option"

text \<open>The root \<open>[]\<close> is always a directory.\<close>

definition lookup :: "filesystem \<Rightarrow> path \<Rightarrow> node option" where
  "lookup d p = (if p = [] then Some Dir else d p)"

text \<open>\<^verbatim>\<open>os.path.join(folder, name)\<close> for a name of one component.\<close>

definition os_path_join :: "path \<Rightarrow> string \<Rightarrow> path" where
  "os_path_join folder name = folder @ [name]"

definition os_path_exists :: "filesystem \<Rightarrow> path \<Rightarrow> bool" where
  "os_path_exists d p = (lookup d p \<noteq> None)"

definition os_path_isdir :: "filesystem \<Rightarrow> path \<Rightarrow> bool" where
  "os_path_isdir d p = (lookup d p = Some Dir)"

text \<open>\<^verbatim>\<open>os.mkdir\<close>: the path must be new and its parent a directory.\<close>

definition os_mkdir :: "filesystem \<Rightarrow> path \<Rightarrow> exn + filesystem" where
  "os_mkdir d p =
     (if os_path_exists d p then Inl FileExistsError
      else case lookup d (butlast p) of
             None \<Rightarrow> Inl (FileNotFoundError Library)
           | Some (File c) \<Rightarrow> Inl NotADirectoryError
           | Some Dir \<Rightarrow> Inr (d(p \<mapsto> Dir)))"

text \<open>
  \<^verbatim>\<open>Path.mkdir\<close> as \<^verbatim>\<open>pathlib\<close> writes it: try \<^verbatim>\<open>os.mkdir\<close>; an error other than
  \<^verbatim>\<open>FileNotFoundError\<close> is dropped when \<^verbatim>\<open>exist_ok\<close> is set and the path is a
  directory.
\<close>

definition mkdir_single :: "filesystem \<Rightarrow> path \<Rightarrow> bool \<Rightarrow> exn + filesystem" where
  "mkdir_single d p exist_ok =
     (case os_mkdir d p of
        Inr d' \<Rightarrow> Inr d'
      | Inl (FileNotFoundError m) \<Rightarrow> Inl (FileNotFoundError m)
      | Inl e \<Rightarrow> if \<not> exist_ok \<or> \<not> os_path_isdir d p then Inl e else Inr d)"

text \<open>
  \<^verbatim>\<open>Path(p).mkdir(parents=True, exist_ok=True)\<close>: on \<^verbatim>\<open>FileNotFoundError\<close> the
  parent is made in the same way and \<^verbatim>\<open>mkdir\<close> is tried once more without
  \<^verbatim>\<open>parents\<close>; the root is its own parent.
\<close>

function mkdir_parents :: "filesystem \<Rightarrow> path \<Rightarrow> exn + filesystem" where
  "mkdir_parents d p =
     (case os_mkdir d p of
        Inr d' \<Rightarrow> Inr d'
      | Inl (FileNotFoundError m) \<Rightarrow>
          if p = [] then Inl (FileNotFoundError m)
          else (case mkdir_parents d (butlast p) of
                  Inl e \<Rightarrow> Inl e
                | Inr d1 \<Rightarrow> mkdir_single d1 p True)
      | Inl e \<Rightarrow> if \<not> os_path_isdir d p then Inl e else Inr d)"
  by pat_completeness auto
termination
  by (relation "measure (\<lambda>(d, p). length p)") auto

declare mkdir_parents.simps [simp del]

text \<open>
  \<^verbatim>\<open>os.makedirs(p)\<close> (\<^verbatim>\<open>exist_ok=False\<close>): the parent is made first when it does
  not exist, a \<^verbatim>\<open>FileExistsError\<close> of that call being passed over, then
  \<^verbatim>\<open>os.mkdir(p)\<close>.
\<close>

function os_makedirs :: "filesystem \<Rightarrow> path \<Rightarrow> exn + filesystem" where
  "os_makedirs d p =
     (if p \<noteq> [] \<and> \<not> os_path_exists d (butlast p) then
        (case os_makedirs d (butlast p) of
           Inr d1 \<Rightarrow> os_mkdir d1 p
         | Inl FileExistsError \<Rightarrow> os_mkdir d p
         | Inl e \<Rightarrow> Inl e)
      else os_mkdir d p)"
  by pat_completeness auto
termination
  by (relation "measure (\<lambda>(d, p). length p)") auto

declare os_makedirs.simps [simp del]

text \<open>
  \<^verbatim>\<open>shutil.rmtree(p, ignore_errors=True)\<close>: a directory goes with everything below
  it; on anything else the call raises inside and the error is ignored.
\<close>

definition shutil_rmtree :: "filesystem \<Rightarrow> path \<Rightarrow> filesystem" where
  "shutil_rmtree d p =
     (case lookup d p of
        Some Dir \<Rightarrow> (\<lambda>q. if prefix p q then None else d q)
      | _ \<Rightarrow> d)"

text \<open>\<^verbatim>\<open>open(p, "wb")\<close>: creates the file or truncates it.\<close>

definition open_wb :: "filesystem \<Rightarrow> path \<Rightarrow> exn + filesystem" where
  "open_wb d p =
     (case lookup d p of
        Some Dir \<Rightarrow> Inl IsADirectoryError
      | _ \<Rightarrow> (case lookup d (butlast p) of
                None \<Rightarrow> Inl (FileNotFoundError Library)
              | Some (File c) \<Rightarrow> Inl NotADirectoryError
              | Some Dir \<Rightarrow> Inr (d(p \<mapsto> File []))))"

text \<open>\<^verbatim>\<open>file.write(data)\<close> on the file opened at \<open>p\<close>: the data is appended.\<close>

definition file_write :: "filesystem \<Rightarrow> path \<Rightarrow> string \<Rightarrow> filesystem" where
  "file_write d p data =
     (case d p of
        Some (File c) \<Rightarrow> d(p \<mapsto> File (c @ data))
      | _ \<Rightarrow> d)"

text \<open>\<^verbatim>\<open>open(p, "rb")\<close> or \<^verbatim>\<open>open(p, "r")\<close> and reading to the end.\<close>

definition read_file :: "filesystem \<Rightarrow> path \<Rightarrow> exn + string" where
  "read_file d p =
     (case lookup d p of
        None \<Rightarrow> Inl (FileNotFoundError Library)
      | Some Dir \<Rightarrow> Inl IsADirectoryError
      | Some (File c) \<Rightarrow> Inr c)"

definition os_remove :: "filesystem \<Rightarrow> path \<Rightarrow> exn + filesystem" where
  "os_remove d p =
     (case lookup d p of
        None \<Rightarrow> Inl (FileNotFoundError Library)
      | Some Dir \<Rightarrow> Inl IsADirectoryError
      | Some (File c) \<Rightarrow> Inr (d(p := None)))"

subsection \<open>Zip archives\<close>

text \<open>
  A member of an archive, with the components of its sanitised name below the target
  directory: a directory, or a file with what reading its data gives (the data, or the
  exception that reading raises, a bad CRC for instance).
\<close>

datatype zmember = ZDir path | ZFile path "exn + string"

definition member_path :: "zmember \<Rightarrow> path" where
  "member_path m = (case m of ZDir rel \<Rightarrow> rel | ZFile rel src \<Rightarrow> rel)"

text \<open>
  \<^verbatim>\<open>ZipFile._extract_member\<close>: the directories above the target are made when the
  parent does not exist; a directory member is made unless it is there; a file member is
  opened in the archive, the target is opened for writing, and the data is copied.
\<close>

definition extract_member :: "filesystem \<Rightarrow> path \<Rightarrow> zmember \<Rightarrow> exn + filesystem" where
  "extract_member d target_dir m =
     (let targetpath = target_dir @ member_path m;
          upperdirs = butlast targetpath
      in case (if upperdirs \<noteq> [] \<and> \<not> os_path_exists d upperdirs
               then os_makedirs d upperdirs else Inr d) of
           Inl e \<Rightarrow> Inl e
         | Inr d1 \<Rightarrow>
             (case m of
                ZDir rel \<Rightarrow>
                  if \<not> os_path_isdir d1 targetpath then os_mkdir d1 targetpath else Inr d1
              | ZFile rel src \<Rightarrow>
                  (case src of
                     Inl e \<Rightarrow> Inl e
                   | Inr data \<Rightarrow>
                       (case open_wb d1 targetpath of
                          Inl e \<Rightarrow> Inl e
                        | Inr d2 \<Rightarrow> Inr (file_write d2 targetpath data)))))"

text \<open>
  \<^verbatim>\<open>ZipFile.extractall\<close>: the members in the archive's order. What the members
  before a failing one wrote stays on the disk, so the disk is returned with the
  exception.
\<close>

fun extractall :: "filesystem \<Rightarrow> path \<Rightarrow> zmember list \<Rightarrow> exn option \<times> filesystem" where
  "extractall d target_dir [] = (None, d)"
| "extractall d target_dir (m # ms) =
     (case extract_member d target_dir m of
        Inl e \<Rightarrow> (Some e, d)
      | Inr d' \<Rightarrow> extractall d' target_dir ms)"

subsection \<open>The handle, the state and the world\<close>

record model_url_with_hash =
  url :: json
  checksum :: json

record hub_model =
  model_key :: string
  height_width_cache :: "(int \<times> int) option"
  project_secret :: "string option"
  model_url_and_hash :: model_url_with_hash
  model_dir :: path

datatype request =
    POST string "(string \<times> string) list"
  | GET string

text \<open>
  The state a call can change: \<^verbatim>\<open>_config["hub_endpoint"]\<close>, the disk, and the log of
  the calls of \<^verbatim>\<open>requests.post\<close> and \<^verbatim>\<open>requests.get\<close> made so far.
\<close>

record state =
  hub_endpoint :: string
  disk :: filesystem
  net_log :: "request list"

text \<open>
  What the code reads of a response: the status code, the \<^verbatim>\<open>content-length\<close>
  header, the body, and the body parsed as JSON (\<open>None\<close> when it is not JSON).
\<close>

record response =
  status_code :: nat
  content_length :: "string option"
  content :: string
  json_body :: "json option"

text \<open>
  An entry of the label map, the dictionary
  \<^verbatim>\<open>{"id": label_index, "name": label_name}\<close>.
\<close>

record label =
  label_id :: int
  label_name :: string

text \<open>
  The surroundings: what a POST and a GET give (an exception of the transport, or a
  response), the SHA-256 digest in hexadecimal, the members of a zip archive (or the
  exception that opening it raises), and \<^verbatim>\<open>Path.home()\<close>. The last field is what
  \<^verbatim>\<open>_load_label_map_from_file\<close> gives on a file with a byte outside ASCII: that
  depends on the encoding of the locale (\<^verbatim>\<open>UnicodeDecodeError\<close> or a text) and on
  the Unicode tables of white space and digits, which are not modelled.
\<close>

record world =
  http_post :: "string \<Rightarrow> (string \<times> string) list \<Rightarrow> exn + response"
  http_get :: "string \<Rightarrow> exn + response"
  sha256 :: "string \<Rightarrow> string"
  zip_members :: "string \<Rightarrow> exn + zmember list"
  path_home :: path
  non_ascii_label_map :: "string \<Rightarrow> exn + (int \<rightharpoonup> label)"

definition default_hub_endpoint :: string where
  "default_hub_endpoint = ''https://api.datature.io/hub''"

definition set_hub_endpoint :: "string \<Rightarrow> state \<Rightarrow> state" where
  "set_hub_endpoint endpoint st = st\<lparr>hub_endpoint := endpoint\<rparr>"

definition requests_post ::
  "world \<Rightarrow> string \<Rightarrow> (string \<times> string) list \<Rightarrow> state \<Rightarrow> (exn + response) \<times> state" where
  "requests_post w endpoint params st =
     (http_post w endpoint params, st\<lparr>net_log := net_log st @ [POST endpoint params]\<rparr>)"

text \<open>A URL that is not a string is refused by \<^verbatim>\<open>requests\<close> before any request.\<close>

definition requests_get :: "world \<Rightarrow> json \<Rightarrow> state \<Rightarrow> (exn + response) \<times> state" where
  "requests_get w u st =
     (case u of
        JStr s \<Rightarrow> (http_get w s, st\<lparr>net_log := net_log st @ [GET s]\<rparr>)
      | _ \<Rightarrow> (Inl MissingSchema, st))"

text \<open>\<^verbatim>\<open>Response.raise_for_status\<close> raises for the codes 400 to 599.\<close>

definition raise_for_status :: "response \<Rightarrow> bool" where
  "raise_for_status r = (400 \<le> status_code r \<and> status_code r < 600)"

text \<open>\<^verbatim>\<open>value[key]\<close> with a string key, on a value parsed from JSON.\<close>

definition subscript :: "json \<Rightarrow> string \<Rightarrow> exn + json" where
  "subscript j k =
     (case j of
        JObj kvs \<Rightarrow> (case map_of kvs k of None \<Rightarrow> Inl (KeyError k) | Some v \<Rightarrow> Inr v)
      | _ \<Rightarrow> Inl TypeError)"

subsection \<open>The resolver and the constructor\<close>

text \<open>
  The dictionary \<^verbatim>\<open>api_params\<close>: the key, and the secret when there is one.
\<close>

definition api_params_of :: "string \<Rightarrow> string option \<Rightarrow> (string \<times> string) list" where
  "api_params_of key secret =
     [(''modelKey'', key)] @
     (case secret of None \<Rightarrow> [] | Some s \<Rightarrow> [(''projectSecret'', s)])"

definition get_model_url_and_hash ::
  "world \<Rightarrow> string \<Rightarrow> string option \<Rightarrow> state \<Rightarrow> (exn + model_url_with_hash) \<times> state" where
  "get_model_url_and_hash w key secret st =
     (let api_params = api_params_of key secret
      in case requests_post w (hub_endpoint st) api_params st of
           (Inl e, st1) \<Rightarrow> (Inl e, st1)
         | (Inr response, st1) \<Rightarrow>
             (if raise_for_status response then Inl (HTTPError (status_code response))
              else case json_body response of
                     None \<Rightarrow> Inl JSONDecodeError
                   | Some response_json \<Rightarrow>
                       (case subscript response_json ''status'' of
                          Inl e \<Rightarrow> Inl e
                        | Inr status \<Rightarrow>
                            if status \<noteq> JStr ''ready'' then
                              Inl (RuntimeError (Msg ''Model is not ready to download.''))
                            else
                              (case subscript response_json ''projectSecretNeeded'' of
                                 Inl e \<Rightarrow> Inl e
                               | Inr needed \<Rightarrow>
                                   (case subscript response_json ''signedUrl'' of
                                      Inl e \<Rightarrow> Inl e
                                    | Inr u \<Rightarrow>
                                        (case subscript response_json ''hash'' of
                                           Inl e \<Rightarrow> Inl e
                                         | Inr h \<Rightarrow> Inr \<lparr>url = u, checksum = h\<rparr>)))),
              st1))"

definition get_default_hub_dir :: "world \<Rightarrow> path" where
  "get_default_hub_dir w = os_path_join (path_home w) ''.dataturehub''"

text \<open>\<^verbatim>\<open>HubModel.__init__\<close>; no handle exists when the resolver raises.\<close>

definition hub_model_init ::
  "world \<Rightarrow> string \<Rightarrow> string option \<Rightarrow> path option \<Rightarrow> state \<Rightarrow> (exn + hub_model) \<times> state" where
  "hub_model_init w key secret hub_dir st =
     (case get_model_url_and_hash w key secret st of
        (Inl e, st1) \<Rightarrow> (Inl e, st1)
      | (Inr source, st1) \<Rightarrow>
          (Inr \<lparr>model_key = key,
                height_width_cache = None,
                project_secret = secret,
                model_url_and_hash = source,
                model_dir =
                  (case hub_dir of
                     None \<Rightarrow> os_path_join (get_default_hub_dir w) key
                   | Some h \<Rightarrow> os_path_join h key)\<rparr>,
           st1))"

subsection \<open>Strings\<close>

text \<open>
  A \<^verbatim>\<open>str\<close> is modelled for code points below 256, one character for each.

  The characters of the ASCII range that \<^verbatim>\<open>str.strip()\<close> takes off: tab, line
  feed, vertical tab, form feed, carriage return, the four separators 0x1C to 0x1F and
  the space. It is applied to ASCII text only.
\<close>

definition is_space :: "char \<Rightarrow> bool" where
  "is_space c =
     (c \<in> set [CHR 0x09, CHR 0x0A, CHR 0x0B, CHR 0x0C, CHR 0x0D,
                CHR 0x1C, CHR 0x1D, CHR 0x1E, CHR 0x1F, CHR 0x20])"

text \<open>
  The characters that \<^verbatim>\<open>int()\<close> passes over at both ends: of the ASCII range only
  those of C's \<^verbatim>\<open>isspace\<close> (not 0x1C to 0x1F), and above it the white space of
  Unicode, which below 256 is 0x85 and 0xA0.
\<close>

definition is_int_space :: "char \<Rightarrow> bool" where
  "is_int_space c =
     (c \<in> set [CHR 0x09, CHR 0x0A, CHR 0x0B, CHR 0x0C, CHR 0x0D, CHR 0x20,
                CHR 0x85, CHR 0xA0])"

text \<open>A text of ASCII characters only: no character has its high bit set.\<close>

definition is_ascii :: "string \<Rightarrow> bool" where
  "is_ascii s = list_all (\<lambda>c. \<not> digit7 c) s"

definition strip_chars :: "(char \<Rightarrow> bool) \<Rightarrow> string \<Rightarrow> string" where
  "strip_chars P s = rev (dropWhile P (rev (dropWhile P s)))"

definition strip :: "string \<Rightarrow> string" where
  "strip s = strip_chars is_space s"

definition is_digit :: "char \<Rightarrow> bool" where
  "is_digit c = (c \<in> set ''0123456789'')"

definition digit_val :: "char \<Rightarrow> nat" where
  "digit_val c = of_char c - 48"

text \<open>
  The digits of a decimal literal after its first digit, with the value so far: a
  single underscore may stand between two digits.
\<close>

fun digits_from :: "nat \<Rightarrow> string \<Rightarrow> nat option" where
  "digits_from acc [] = Some acc"
| "digits_from acc [c] = (if is_digit c then Some (10 * acc + digit_val c) else None)"
| "digits_from acc (c # c' # cs) =
     (if is_digit c then digits_from (10 * acc + digit_val c) (c' # cs)
      else if c = CHR ''_'' \<and> is_digit c' then digits_from (10 * acc + digit_val c') cs
      else None)"

text \<open>
  \<^verbatim>\<open>sys.int_max_str_digits\<close>, at its default: \<^verbatim>\<open>int()\<close> raises
  \<^verbatim>\<open>ValueError\<close> on a literal with more digits (underscores are not counted).
\<close>

definition int_max_str_digits :: nat where
  "int_max_str_digits = 4300"

definition decimal :: "string \<Rightarrow> nat option" where
  "decimal s =
     (if int_max_str_digits < length (filter is_digit s) then None
      else case s of
             [] \<Rightarrow> None
           | c # cs \<Rightarrow> if is_digit c then digits_from (digit_val c) cs else None)"

text \<open>
  \<^verbatim>\<open>int(s)\<close> on a string: white space around, a sign, decimal digits; \<open>None\<close> is
  \<^verbatim>\<open>ValueError\<close>.
\<close>

definition py_int :: "string \<Rightarrow> int option" where
  "py_int s =
     (case strip_chars is_int_space s of
        [] \<Rightarrow> None
      | c # cs \<Rightarrow>
          if c = CHR ''-'' then map_option (\<lambda>n. - int n) (decimal cs)
          else if c = CHR ''+'' then map_option int (decimal cs)
          else map_option int (decimal (c # cs)))"

text \<open>\<^verbatim>\<open>s.split(sep)\<close> for a separator of one character; the result is never empty.\<close>

fun split_on :: "char \<Rightarrow> string \<Rightarrow> string list" where
  "split_on sep [] = [[]]"
| "split_on sep (c # cs) =
     (if c = sep then [] # split_on sep cs
      else (c # hd (split_on sep cs)) # tl (split_on sep cs))"

text \<open>
  Reading in pieces of at most \<open>n\<close> characters until nothing is left, as
  \<^verbatim>\<open>file.read(chunk_size)\<close> in a loop and \<^verbatim>\<open>iter_content(chunk_size)\<close> do.
\<close>

function chunks :: "nat \<Rightarrow> string \<Rightarrow> string list" where
  "chunks n s = (if n = 0 \<or> s = [] then [] else take n s # chunks n (drop n s))"
  by pat_completeness auto
termination
  by (relation "measure (\<lambda>(n, s). length s)") auto

declare chunks.simps [simp del]

subsection \<open>Download and verification\<close>

text \<open>
  \<^verbatim>\<open>_get_sha256_hash_of_file\<close>: the file is read in pieces of 1 MiB, each piece is fed
  to the hash object, whose state is what it was fed so far.
\<close>

definition get_sha256_hash_of_file ::
  "world \<Rightarrow> filesystem \<Rightarrow> path \<Rightarrow> bool \<Rightarrow> exn + string" where
  "get_sha256_hash_of_file w d filepath progress =
     (case read_file d filepath of
        Inl e \<Rightarrow> Inl e
      | Inr c \<Rightarrow>
          Inr (sha256 w (fold (\<lambda>chunk hash_f. hash_f @ chunk) (chunks (1024 * 1024) c) [])))"

text \<open>
  The loop over \<^verbatim>\<open>response.iter_content\<close>: with \<^verbatim>\<open>progress\<close> the fraction
  downloaded is computed before the piece is written, which divides by the announced
  length. What was written before an exception stays in the file.
\<close>

fun write_chunks ::
  "bool \<Rightarrow> int \<Rightarrow> path \<Rightarrow> string list \<Rightarrow> filesystem \<Rightarrow> exn option \<times> filesystem" where
  "write_chunks progress total_length dest [] d = (None, d)"
| "write_chunks progress total_length dest (data # rest) d =
     (if progress \<and> total_length = 0 then (Some ZeroDivisionError, d)
      else write_chunks progress total_length dest rest (file_write d dest data))"

definition save_and_verify_model ::
  "world \<Rightarrow> hub_model \<Rightarrow> path \<Rightarrow> bool \<Rightarrow> state \<Rightarrow> (exn + unit) \<times> state" where
  "save_and_verify_model w self destination_path progress st =
     (case open_wb (disk st) destination_path of
        Inl e \<Rightarrow> (Inl e, st)
      | Inr d1 \<Rightarrow>
          (case requests_get w (url (model_url_and_hash self)) (st\<lparr>disk := d1\<rparr>) of
             (Inl e, st2) \<Rightarrow> (Inl e, st2)
           | (Inr response, st2) \<Rightarrow>
               if raise_for_status response then (Inl (HTTPError (status_code response)), st2)
               else
                 (case content_length response of
                    None \<Rightarrow>
                      (Inr (),
                       st2\<lparr>disk := file_write (disk st2) destination_path (content response)\<rparr>)
                  | Some total_length \<Rightarrow>
                      (case py_int total_length of
                         None \<Rightarrow> (Inl (ValueError Library), st2)
                       | Some n \<Rightarrow>
                           (case write_chunks progress n destination_path
                                   (chunks 4096 (content response)) (disk st2) of
                              (Some e, d3) \<Rightarrow> (Inl e, st2\<lparr>disk := d3\<rparr>)
                            | (None, d3) \<Rightarrow>
                                (case get_sha256_hash_of_file w d3 destination_path progress of
                                   Inl e \<Rightarrow> (Inl e, st2\<lparr>disk := d3\<rparr>)
                                 | Inr file_checksum \<Rightarrow>
                                     if JStr file_checksum \<noteq> checksum (model_url_and_hash self)
                                     then
                                       (Inl (RuntimeError
                                              (Checksum_mismatch file_checksum
                                                (checksum (model_url_and_hash self)))),
                                        st2\<lparr>disk := d3\<rparr>)
                                     else (Inr (), st2\<lparr>disk := d3\<rparr>)))))))"

subsection \<open>The cache\<close>

text \<open>The body of the \<^verbatim>\<open>try\<close> statement of \<^verbatim>\<open>download_model\<close>.\<close>

definition download_try ::
  "world \<Rightarrow> hub_model \<Rightarrow> model_type \<Rightarrow> bool \<Rightarrow> state \<Rightarrow> (exn + unit) \<times> state" where
  "download_try w self mt progress st =
     (let model_folder = model_dir self in
      if mt = TF then
        let model_zip_path = os_path_join model_folder ''model.zip'' in
        (case save_and_verify_model w self model_zip_path progress st of
           (Inl e, st1) \<Rightarrow> (Inl e, st1)
         | (Inr u, st1) \<Rightarrow>
             (case read_file (disk st1) model_zip_path of
                Inl e \<Rightarrow> (Inl e, st1)
              | Inr archive \<Rightarrow>
                  (case zip_members w archive of
                     Inl e \<Rightarrow> (Inl e, st1)
                   | Inr members \<Rightarrow>
                       (case extractall (disk st1) model_folder members of
                          (Some e, d2) \<Rightarrow> (Inl e, st1\<lparr>disk := d2\<rparr>)
                        | (None, d2) \<Rightarrow>
                            (case os_remove d2 model_zip_path of
                               Inl e \<Rightarrow> (Inl e, st1\<lparr>disk := d2\<rparr>)
                             | Inr d3 \<Rightarrow> (Inr (), st1\<lparr>disk := d3\<rparr>))))))
      else (Inl (ValueError (Invalid_model_type mt)), st))"

text \<open>
  \<^verbatim>\<open>download_model\<close>: the directory is made before the \<^verbatim>\<open>try\<close>; the handler
  removes it and raises the exception it caught.
\<close>

definition download_model ::
  "world \<Rightarrow> hub_model \<Rightarrow> model_type \<Rightarrow> bool \<Rightarrow> state \<Rightarrow> (exn + path) \<times> state" where
  "download_model w self mt progress st =
     (let model_folder = model_dir self in
      case mkdir_parents (disk st) model_folder of
        Inl e \<Rightarrow> (Inl e, st)
      | Inr d1 \<Rightarrow>
          (case download_try w self mt progress (st\<lparr>disk := d1\<rparr>) of
             (Inl exc, st2) \<Rightarrow>
               (Inl exc, st2\<lparr>disk := shutil_rmtree (disk st2) model_folder\<rparr>)
           | (Inr u, st2) \<Rightarrow> (Inr model_folder, st2)))"

text \<open>
  \<^verbatim>\<open>load_tf_model\<close>; \<open>saved_model_load\<close> stands for \<^verbatim>\<open>tf.saved_model.load\<close> with
  the keyword arguments of the call.
\<close>

definition load_tf_model ::
  "world \<Rightarrow> (filesystem \<Rightarrow> path \<Rightarrow> exn + 'm) \<Rightarrow> hub_model \<Rightarrow> bool \<Rightarrow> bool \<Rightarrow> state
     \<Rightarrow> (exn + 'm) \<times> state" where
  "load_tf_model w saved_model_load self force_download progress st =
     (let model_folder = model_dir self in
      case (if force_download \<or> \<not> os_path_exists (disk st) model_folder
            then download_model w self TF progress st
            else (Inr model_folder, st)) of
        (Inl e, st1) \<Rightarrow> (Inl e, st1)
      | (Inr folder, st1) \<Rightarrow>
          (saved_model_load (disk st1) (os_path_join model_folder ''saved_model''), st1))"

subsection \<open>Accessors\<close>

definition pipeline_missing_message :: string where
  "pipeline_missing_message =
     ''pipeline.config not found in the model key directory. '' @
     ''                Try re-downloading the model by '' @
     ''                calling load_tf_model with force_download parameter = True.''"

definition get_pipeline_config_dir :: "hub_model \<Rightarrow> state \<Rightarrow> exn + path" where
  "get_pipeline_config_dir self st =
     (let model_folder = model_dir self in
      if \<not> os_path_exists (disk st) model_folder then
        Inl (FileNotFoundError
              (Msg (''The directory for model key '' @ model_key self @ '' does not exist.'')))
      else
        let pipeline_path = os_path_join model_folder ''pipeline.config'' in
        if \<not> os_path_exists (disk st) pipeline_path then
          Inl (FileNotFoundError (Msg pipeline_missing_message))
        else Inr pipeline_path)"

subsection \<open>The label map\<close>

text \<open>
  A file opened in text mode is read with universal newlines: \<^verbatim>\<open>\r\n\<close> and a lone
  \<^verbatim>\<open>\r\<close> come out as \<^verbatim>\<open>\n\<close>. The flag says that the character before was
  \<^verbatim>\<open>\r\<close>.
\<close>

fun universal_newlines :: "bool \<Rightarrow> string \<Rightarrow> string" where
  "universal_newlines after_cr [] = []"
| "universal_newlines after_cr (c # cs) =
     (if c = CHR 0x0D then CHR 0x0A # universal_newlines True cs
      else if c = CHR 0x0A \<and> after_cr then universal_newlines False cs
      else c # universal_newlines False cs)"

text \<open>The lines that iterating over a text file gives, each with its line feed.\<close>

fun text_lines :: "string \<Rightarrow> string list" where
  "text_lines [] = []"
| "text_lines (c # cs) =
     (if c = CHR 0x0A then [c] # text_lines cs
      else (case text_lines cs of
              [] \<Rightarrow> [[c]]
            | l # ls \<Rightarrow> (c # l) # ls))"

text \<open>\<^verbatim>\<open>int(line.split(":")[-1])\<close>.\<close>

definition label_index_of :: "string \<Rightarrow> int option" where
  "label_index_of line = py_int (last (split_on (CHR '':'') line))"

text \<open>\<^verbatim>\<open>line.split(":")[-1].strip().strip("'")\<close>.\<close>

definition label_name_of :: "string \<Rightarrow> string" where
  "label_name_of line =
     strip_chars (\<lambda>c. c = CHR 0x27) (strip (last (split_on (CHR '':'') line)))"

text \<open>
  The loop of \<^verbatim>\<open>_load_label_map_from_file\<close> over the lines still unread: a line that
  contains \<^verbatim>\<open>id\<close> gives the index, \<^verbatim>\<open>next(label_file)\<close> takes the line after it
  for the name (and raises \<^verbatim>\<open>StopIteration\<close> at the end of the file), and the
  dictionary is assigned at the index.
\<close>

fun label_loop :: "string list \<Rightarrow> (int \<rightharpoonup> label) \<Rightarrow> exn + (int \<rightharpoonup> label)" where
  "label_loop [] label_map = Inr label_map"
| "label_loop [line] label_map =
     (if sublist ''id'' line then
        (case label_index_of line of
           None \<Rightarrow> Inl (ValueError Library)
         | Some label_index \<Rightarrow> Inl StopIteration)
      else Inr label_map)"
| "label_loop (line # line' # rest) label_map =
     (if sublist ''id'' line then
        (case label_index_of line of
           None \<Rightarrow> Inl (ValueError Library)
         | Some label_index \<Rightarrow>
             label_loop rest
               (label_map(label_index \<mapsto>
                  \<lparr>label_id = label_index, label_name = label_name_of line'\<rparr>)))
      else label_loop (line' # rest) label_map)"

text \<open>
  \<^verbatim>\<open>_load_label_map_from_file\<close>. The file is opened in text mode, so its bytes are
  decoded with the encoding of the locale. A file of ASCII bytes decodes to the same
  characters in every encoding that extends ASCII, and the loop runs over its lines; on
  any other file the result is the one the world gives.
\<close>

definition load_label_map_from_file ::
  "world \<Rightarrow> filesystem \<Rightarrow> path \<Rightarrow> exn + (int \<rightharpoonup> label)" where
  "load_label_map_from_file w d label_map_path =
     (case read_file d label_map_path of
        Inl e \<Rightarrow> Inl e
      | Inr c \<Rightarrow>
          if is_ascii c then label_loop (text_lines (universal_newlines False c)) Map.empty
          else non_ascii_label_map w c)"

definition load_label_map :: "world \<Rightarrow> hub_model \<Rightarrow> state \<Rightarrow> exn + (int \<rightharpoonup> label)" where
  "load_label_map w self st =
     (let model_folder = model_dir self;
          label_map_path = os_path_join model_folder ''label_map.pbtxt''
      in load_label_map_from_file w (disk st) label_map_path)"

subsection \<open>Label-map files as lists of records\<close>

text \<open>
  The line \<open>l\<close> is an id line that holds the integer \<open>i\<close>: it contains
  \<^verbatim>\<open>id\<close>, and what stands after its last colon is read by \<^verbatim>\<open>int\<close> as \<open>i\<close>.
\<close>

definition id_line_of :: "int \<Rightarrow> string \<Rightarrow> bool" where
  "id_line_of i l =
     (sublist ''id'' l
      \<and> (\<exists>key t. l = key @ [CHR '':''] @ t \<and> CHR '':'' \<notin> set t \<and> py_int t = Some i))"

text \<open>
  The line \<open>l\<close> is a name line that holds the string \<open>nm\<close>: what stands after its
  last colon is \<open>nm\<close> once the white space around it and then the single quotes
  around it are taken off.
\<close>

definition name_line_of :: "string \<Rightarrow> string \<Rightarrow> bool" where
  "name_line_of nm l =
     (\<exists>key t. l = key @ [CHR '':''] @ t \<and> CHR '':'' \<notin> set t
              \<and> strip_chars (\<lambda>c. c = CHR 0x27) (strip t) = nm)"

text \<open>
  A record of a label-map file: the lines before its id line (\<^verbatim>\<open>item {\<close> and the
  like), the id line with its integer, and the line after it with its name.
\<close>

record label_record =
  lines_before :: "string list"
  id_line :: string
  rec_id :: int
  name_line :: string
  rec_name :: string

definition record_ok :: "label_record \<Rightarrow> bool" where
  "record_ok r =
     ((\<forall>l \<in> set (lines_before r). \<not> sublist ''id'' l)
      \<and> id_line_of (rec_id r) (id_line r)
      \<and> name_line_of (rec_name r) (name_line r))"

definition record_lines :: "label_record \<Rightarrow> string list" where
  "record_lines r = lines_before r @ [id_line r, name_line r]"

definition label_of :: "label_record \<Rightarrow> label" where
  "label_of r = \<lparr>label_id = rec_id r, label_name = rec_name r\<rparr>"

text \<open>The assignment \<^verbatim>\<open>label_map[label_index] = {...}\<close> for a record.\<close>

definition assign :: "label_record \<Rightarrow> (int \<rightharpoonup> label) \<Rightarrow> (int \<rightharpoonup> label)" where
  "assign r m = m(rec_id r \<mapsto> label_of r)"


subsection \<open>Relations between disks\<close>

text \<open>Every directory of \<open>d\<close> is a directory of \<open>d'\<close>.\<close>

definition keeps_dirs :: "filesystem \<Rightarrow> filesystem \<Rightarrow> bool" where
  "keeps_dirs d d' = (\<forall>q. lookup d q = Some Dir \<longrightarrow> lookup d' q = Some Dir)"

text \<open>
  Away from the path \<open>t\<close>, \<open>d'\<close> is \<open>d\<close> with new directories at paths that
  did not exist.
\<close>

definition changes_only :: "path \<Rightarrow> filesystem \<Rightarrow> filesystem \<Rightarrow> bool" where
  "changes_only t d d' = (\<forall>q. q \<noteq> t \<longrightarrow> d' q = d q \<or> (d q = None \<and> d' q = Some Dir))"

text \<open>
  A member of an archive is on the disk below \<open>target_dir\<close>: its directory, or its
  file with the member's data.
\<close>

definition member_present :: "filesystem \<Rightarrow> path \<Rightarrow> zmember \<Rightarrow> bool" where
  "member_present d target_dir m =
     (case m of
        ZDir rel \<Rightarrow> lookup d (target_dir @ rel) = Some Dir
      | ZFile rel src \<Rightarrow>
          (case src of
             Inl e \<Rightarrow> False
           | Inr data \<Rightarrow> lookup d (target_dir @ rel) = Some (File data)))"

subsection \<open>A concrete registry, server and cache\<close>

text \<open>
  The values on which the theorems below are instantiated: a registry that knows the key
  \<^verbatim>\<open>key1\<close>, a server with one archive, and the handle that the constructor gives
  for that key.
\<close>

definition ex_label_text :: string where
  "ex_label_text =
     ''item {'' @ [CHR 0x0A] @
     ''  id: 1'' @ [CHR 0x0A] @
     ''  name: '' @ [CHR 0x27] @ ''cat'' @ [CHR 0x27] @ [CHR 0x0A] @
     ''}'' @ [CHR 0x0A] @
     ''item {'' @ [CHR 0x0A] @
     ''  id: 2'' @ [CHR 0x0A] @
     ''  name: '' @ [CHR 0x27] @ ''dog'' @ [CHR 0x27] @ [CHR 0x0A] @
     ''}'' @ [CHR 0x0A]"

definition ex_archive :: string where
  "ex_archive = ''PK archive''"

definition ex_members :: "zmember list" where
  "ex_members =
     [ZDir [''saved_model''],
      ZFile [''saved_model'', ''saved_model.pb''] (Inr ''weights''),
      ZFile [''label_map.pbtxt''] (Inr ex_label_text),
      ZFile [''pipeline.config''] (Inr ''config'')]"

definition ex_url :: string where
  "ex_url = ''https://files.example/model.zip''"

definition ex_registry_json :: "string \<Rightarrow> json" where
  "ex_registry_json status =
     JObj [(''status'', JStr status), (''projectSecretNeeded'', JBool False),
           (''signedUrl'', JStr ex_url), (''hash'', JStr ''abc123'')]"

definition ex_registry_response :: "nat \<Rightarrow> string \<Rightarrow> response" where
  "ex_registry_response code status =
     \<lparr>status_code = code, content_length = None, content = [],
      json_body = Some (ex_registry_json status)\<rparr>"

text \<open>
  The world in which the registry at the default endpoint answers \<open>registry\<close>, a
  registry at \<^verbatim>\<open>https://other.example/hub\<close> answers with another URL and checksum,
  and the server answers \<open>download\<close> at \<open>ex_url\<close>. Two strings are zip archives:
  \<open>ex_archive\<close>, whose digest is the one the registry gives, and another one.
\<close>

definition ex_world :: "response \<Rightarrow> response \<Rightarrow> world" where
  "ex_world registry download =
     \<lparr>http_post =
        (\<lambda>endpoint params.
           if endpoint = default_hub_endpoint then Inr registry
           else if endpoint = ''https://other.example/hub'' then
             Inr \<lparr>status_code = 200, content_length = None, content = [],
                  json_body =
                    Some (JObj [(''status'', JStr ''ready''),
                                (''projectSecretNeeded'', JBool False),
                                (''signedUrl'', JStr ''https://other.example/m.zip''),
                                (''hash'', JStr ''fff999'')])\<rparr>
           else Inl RequestException),
      http_get = (\<lambda>u. if u = ex_url then Inr download else Inl RequestException),
      sha256 = (\<lambda>s. if s = ex_archive then ''abc123'' else ''000000''),
      zip_members =
        (\<lambda>s. if s = ex_archive then Inr ex_members
             else if s = ''PK other archive'' then
               Inr [ZFile [''pipeline.config''] (Inr ''other config'')]
             else Inl BadZipFile),
      path_home = [''home'', ''user''],
      non_ascii_label_map = (\<lambda>c. Inl UnicodeDecodeError)\<rparr>"

definition ex_download :: "string option \<Rightarrow> string \<Rightarrow> response" where
  "ex_download len body =
     \<lparr>status_code = 200, content_length = len, content = body, json_body = None\<rparr>"

definition ex_dir :: path where
  "ex_dir = [''home'', ''user'', ''.dataturehub'', ''key1'']"

definition ex_handle :: hub_model where
  "ex_handle =
     \<lparr>model_key = ''key1'', height_width_cache = None, project_secret = None,
      model_url_and_hash = \<lparr>url = JStr ex_url, checksum = JStr ''abc123''\<rparr>,
      model_dir = ex_dir\<rparr>"

text \<open>A disk with the home directory only, and a disk with a populated cache.\<close>

definition ex_disk_fresh :: filesystem where
  "ex_disk_fresh = [[''home''] \<mapsto> Dir, [''home'', ''user''] \<mapsto> Dir]"

definition ex_disk_cached :: filesystem where
  "ex_disk_cached =
     [[''home''] \<mapsto> Dir, [''home'', ''user''] \<mapsto> Dir,
      [''home'', ''user'', ''.dataturehub''] \<mapsto> Dir,
      ex_dir \<mapsto> Dir,
      ex_dir @ [''saved_model''] \<mapsto> Dir,
      ex_dir @ [''saved_model'', ''saved_model.pb''] \<mapsto> File ''weights'',
      ex_dir @ [''label_map.pbtxt''] \<mapsto> File ex_label_text,
      ex_dir @ [''pipeline.config''] \<mapsto> File ''config'']"

text \<open>The two records of \<open>ex_label_text\<close>, and a file with the id 1 twice.\<close>

definition ex_record_cat :: label_record where
  "ex_record_cat =
     \<lparr>lines_before = [''item {'' @ [CHR 0x0A]],
      id_line = ''  id: 1'' @ [CHR 0x0A],
      rec_id = 1,
      name_line = ''  name: '' @ [CHR 0x27] @ ''cat'' @ [CHR 0x27] @ [CHR 0x0A],
      rec_name = ''cat''\<rparr>"

definition ex_record_dog :: label_record where
  "ex_record_dog =
     \<lparr>lines_before = [''}'' @ [CHR 0x0A], ''item {'' @ [CHR 0x0A]],
      id_line = ''  id: 2'' @ [CHR 0x0A],
      rec_id = 2,
      name_line = ''  name: '' @ [CHR 0x27] @ ''dog'' @ [CHR 0x27] @ [CHR 0x0A],
      rec_name = ''dog''\<rparr>"

definition ex_label_text_twice :: string where
  "ex_label_text_twice =
     ''id: 1'' @ [CHR 0x0A] @
     ''name: '' @ [CHR 0x27] @ ''cat'' @ [CHR 0x27] @ [CHR 0x0A] @
     ''id: 1'' @ [CHR 0x0A] @
     ''name: '' @ [CHR 0x27] @ ''dog'' @ [CHR 0x27] @ [CHR 0x0A]"

definition ex_state :: "filesystem \<Rightarrow> state" where
  "ex_state d = \<lparr>hub_endpoint = default_hub_endpoint, disk = d, net_log = []\<rparr>"

section \<open>Lemmas on the file system\<close>

lemma keeps_dirs_refl: "keeps_dirs d d"
  by (simp add: keeps_dirs_def)

lemma keeps_dirs_trans: "keeps_dirs d d' \<Longrightarrow> keeps_dirs d' d'' \<Longrightarrow> keeps_dirs d d''"
  by (simp add: keeps_dirs_def)

lemma os_mkdir_Inr: "os_mkdir d p = Inr d' \<Longrightarrow> d' = d(p \<mapsto> Dir) \<and> d p = None \<and> p \<noteq> []"
  by (auto simp: os_mkdir_def os_path_exists_def lookup_def split: if_splits option.splits node.splits)

lemma os_mkdir_isdir: "os_mkdir d p = Inr d' \<Longrightarrow> lookup d' p = Some Dir"
  by (auto simp: lookup_def dest!: os_mkdir_Inr)

lemma mkdir_single_isdir: "mkdir_single d p True = Inr d' \<Longrightarrow> lookup d' p = Some Dir"
  by (auto simp: mkdir_single_def os_path_isdir_def os_mkdir_isdir split: sum.splits exn.splits if_splits)

lemma mkdir_parents_isdir: "mkdir_parents d p = Inr d' \<Longrightarrow> lookup d' p = Some Dir"
  apply (subst (asm) mkdir_parents.simps)
  apply (auto simp: os_path_isdir_def os_mkdir_isdir mkdir_single_isdir split: sum.splits exn.splits if_splits)
  done

lemma mkdir_parents_existing: "lookup d p = Some Dir \<Longrightarrow> mkdir_parents d p = Inr d"
  apply (subst mkdir_parents.simps)
  apply (auto simp: os_path_isdir_def os_mkdir_def os_path_exists_def split: sum.splits exn.splits if_splits)
  done

lemma rmtree_gone: "lookup d p = Some Dir \<Longrightarrow> prefix p q \<Longrightarrow> shutil_rmtree d p q = None"
  by (simp add: shutil_rmtree_def)

lemma rmtree_other: "\<not> prefix p q \<Longrightarrow> shutil_rmtree d p q = d q"
  by (simp add: shutil_rmtree_def split: option.splits node.splits)

lemma open_wb_Inr: "open_wb d p = Inr d' \<Longrightarrow> d' = d(p \<mapsto> File []) \<and> lookup d p \<noteq> Some Dir \<and> p \<noteq> []"
  by (auto simp: open_wb_def lookup_def split: option.splits node.splits if_splits)

lemma open_wb_keeps: "open_wb d p = Inr d' \<Longrightarrow> keeps_dirs d d'"
  by (auto simp: keeps_dirs_def lookup_def dest!: open_wb_Inr split: if_splits)

lemma file_write_keeps: "keeps_dirs d (file_write d p s)"
  by (auto simp: keeps_dirs_def lookup_def file_write_def split: option.splits node.splits)

lemma os_mkdir_keeps: "os_mkdir d p = Inr d' \<Longrightarrow> keeps_dirs d d'"
  by (auto simp: keeps_dirs_def lookup_def dest!: os_mkdir_Inr split: if_splits)

lemma os_remove_keeps: "os_remove d p = Inr d' \<Longrightarrow> keeps_dirs d d'"
  by (auto simp: keeps_dirs_def lookup_def os_remove_def split: option.splits node.splits if_splits)

lemma os_makedirs_keeps: "os_makedirs d p = Inr d' \<Longrightarrow> keeps_dirs d d'"
proof (induction d p arbitrary: d' rule: os_makedirs.induct)
  case (1 d p)
  show ?case
  proof (cases "p \<noteq> [] \<and> \<not> os_path_exists d (butlast p)")
    case True
    then show ?thesis
      using 1 
      apply (subst (asm) (2) os_makedirs.simps)
      apply (auto split: sum.splits exn.splits dest: os_mkdir_keeps keeps_dirs_trans)
      done
  next
    case False
    then show ?thesis using 1(2) 
      apply (subst (asm) os_makedirs.simps) 
      apply (auto  dest: os_mkdir_keeps)
      done
  qed
qed


lemma changes_only_refl: "changes_only t d d"
  by (simp add: changes_only_def)

lemma changes_only_trans:
  "changes_only t d d' \<Longrightarrow> changes_only t d' d'' \<Longrightarrow> changes_only t d d''"
  unfolding changes_only_def by (metis option.distinct(1))

lemma os_mkdir_changes: "os_mkdir d p = Inr d' \<Longrightarrow> changes_only t d d'"
  by (auto simp: changes_only_def dest!: os_mkdir_Inr split: if_splits)

lemma os_makedirs_changes: "os_makedirs d p = Inr d' \<Longrightarrow> changes_only t d d'"
proof (induction d p arbitrary: d' rule: os_makedirs.induct)
  case (1 d p)
  show ?case
  proof (cases "p \<noteq> [] \<and> \<not> os_path_exists d (butlast p)")
    case True
    then show ?thesis
      using 1
      apply (subst (asm) (2) os_makedirs.simps)
      apply (auto split: sum.splits exn.splits dest: os_mkdir_changes changes_only_trans)
      done
  next
    case False
    then show ?thesis using 1(2)
      apply (subst (asm) os_makedirs.simps)
      apply (auto dest: os_mkdir_changes)
      done
  qed
qed

lemma extract_member_keeps: "extract_member d t m = Inr d' \<Longrightarrow> keeps_dirs d d'"
  unfolding extract_member_def Let_def
  by (auto split: sum.splits zmember.splits if_splits
      dest!: os_makedirs_keeps os_mkdir_keeps open_wb_keeps
      intro: keeps_dirs_trans keeps_dirs_refl file_write_keeps)


lemma extract_member_changes:
  "extract_member d t m = Inr d' \<Longrightarrow> changes_only (t @ member_path m) d d'"
proof -
  assume a: "extract_member d t m = Inr d'"
  have w: "\<And>a b p s. open_wb a p = Inr b \<Longrightarrow> changes_only p a (file_write b p s)"
    by (auto simp: changes_only_def file_write_def dest!: open_wb_Inr)
  show ?thesis
    using a unfolding extract_member_def Let_def member_path_def
    by (auto split: sum.splits zmember.splits if_splits
        dest!: os_makedirs_changes os_mkdir_changes w
        intro: changes_only_trans changes_only_refl)
qed

lemma extract_member_present:
  "extract_member d t m = Inr d' \<Longrightarrow> member_present d' t m"
proof -
  assume a: "extract_member d t m = Inr d'"
  have w: "\<And>a b p s. open_wb a p = Inr b \<Longrightarrow> lookup (file_write b p s) p = Some (File s)"
    by (auto simp: file_write_def lookup_def dest!: open_wb_Inr)
  show ?thesis
    using a unfolding extract_member_def Let_def member_present_def member_path_def
    by (auto simp: os_path_isdir_def split: sum.splits zmember.splits if_splits
        dest: os_mkdir_isdir w)
qed

lemma member_present_kept:
  assumes "member_present d t m0" and "changes_only (t @ member_path m) d d'"
    and "keeps_dirs d d'" and "member_path m \<noteq> member_path m0"
  shows "member_present d' t m0"
proof (cases m0)
  case (ZDir rel)
  then show ?thesis using assms by (simp add: member_present_def keeps_dirs_def)
next
  case (ZFile rel src)
  show ?thesis
  proof (cases src)
    case (Inl e)
    then show ?thesis using assms ZFile by (simp add: member_present_def)
  next
    case (Inr data)
    have ne: "t @ rel \<noteq> t @ member_path m"
      using assms(4) ZFile by (simp add: member_path_def)
    have f: "lookup d (t @ rel) = Some (File data)"
      using assms(1) ZFile Inr by (simp add: member_present_def)
    then have "t @ rel \<noteq> []" by (auto simp: lookup_def split: if_splits)
    with f have "d (t @ rel) = Some (File data)" by (auto simp: lookup_def split: if_splits)
    with assms(2) ne have "d' (t @ rel) = Some (File data)"
      unfolding changes_only_def by (metis option.distinct(1))
    then show ?thesis using ZFile Inr \<open>t @ rel \<noteq> []\<close>
      by (simp add: member_present_def lookup_def)
  qed
qed

lemma extractall_keeps: "extractall d t ms = (r, d') \<Longrightarrow> keeps_dirs d d'"
proof (induction ms arbitrary: d)
  case Nil
  then show ?case by (simp add: keeps_dirs_refl)
next
  case (Cons m ms)
  then show ?case
    by (auto split: sum.splits intro: keeps_dirs_refl
        dest: extract_member_keeps keeps_dirs_trans)
qed

lemma extractall_keeps_present:
  "member_present d t m \<Longrightarrow> extractall d t ms = (None, d') \<Longrightarrow>
   \<forall>m' \<in> set ms. member_path m' \<noteq> member_path m \<Longrightarrow> member_present d' t m"
proof (induction ms arbitrary: d)
  case Nil
  then show ?case by simp
next
  case (Cons a ms)
  from Cons.prems(2) obtain d1 where
    a: "extract_member d t a = Inr d1" and rest: "extractall d1 t ms = (None, d')"
    by (auto split: sum.splits)
  have "member_present d1 t m"
    using member_present_kept[OF Cons.prems(1) extract_member_changes[OF a]
        extract_member_keeps[OF a]] Cons.prems(3) by simp
  then show ?case using Cons.IH rest Cons.prems(3) by simp
qed

lemma extractall_present:
  "extractall d t (ms1 @ m # ms2) = (None, d') \<Longrightarrow>
   \<forall>m' \<in> set ms2. member_path m' \<noteq> member_path m \<Longrightarrow> member_present d' t m"
proof (induction ms1 arbitrary: d)
  case Nil
  then obtain d1 where
    a: "extract_member d t m = Inr d1" and rest: "extractall d1 t ms2 = (None, d')"
    by (auto split: sum.splits)
  show ?case
    using extractall_keeps_present[OF extract_member_present[OF a] rest] Nil.prems(2) by simp
next
  case (Cons a ms1)
  then show ?case by (auto split: sum.splits)
qed

subsection \<open>The download keeps directories\<close>

lemma write_chunks_keeps: "write_chunks progress n dest cs d = (r, d') \<Longrightarrow> keeps_dirs d d'"
proof (induction cs arbitrary: d)
  case Nil
  then show ?case by (simp add: keeps_dirs_refl)
next
  case (Cons c cs)
  then show ?case
    by (auto split: if_splits intro: keeps_dirs_refl keeps_dirs_trans[OF file_write_keeps])
qed

lemma save_and_verify_model_keeps:
  "save_and_verify_model w self dest progress st = (r, st') \<Longrightarrow> keeps_dirs (disk st) (disk st')"
  unfolding save_and_verify_model_def requests_get_def
  by (auto split: sum.splits json.splits if_splits option.splits prod.splits
      intro: keeps_dirs_refl
      dest!: open_wb_keeps write_chunks_keeps
      intro: keeps_dirs_trans keeps_dirs_trans[OF _ file_write_keeps])

lemma download_try_keeps:
  "download_try w self mt progress st = (r, st') \<Longrightarrow> keeps_dirs (disk st) (disk st')"
  unfolding download_try_def Let_def
  by (auto split: sum.splits if_splits option.splits prod.splits
      intro: keeps_dirs_refl
      dest!: save_and_verify_model_keeps extractall_keeps os_remove_keeps
      intro: keeps_dirs_trans)

lemma prefix_self_None:
  "\<forall>q. prefix p q \<longrightarrow> d q = None \<Longrightarrow> p \<noteq> [] \<Longrightarrow> \<not> os_path_exists d p"
  by (simp add: os_path_exists_def lookup_def)

lemma member_present_remove:
  "member_present d t m \<Longrightarrow> member_path m \<noteq> [name] \<Longrightarrow>
   member_present (d(t @ [name] := None)) t m"
  by (auto simp: member_present_def member_path_def lookup_def
      split: zmember.splits sum.splits if_splits)

lemma os_remove_Inr:
  "os_remove d p = Inr d' \<Longrightarrow> d' = d(p := None) \<and> (\<exists>c. lookup d p = Some (File c)) \<and> p \<noteq> []"
  by (auto simp: os_remove_def lookup_def split: option.splits node.splits if_splits)

section \<open>Lemmas on the endpoint and the log of network calls\<close>

lemma save_and_verify_model_endpoint:
  "save_and_verify_model w self dest progress (st\<lparr>hub_endpoint := e\<rparr>)
     = (fst (save_and_verify_model w self dest progress st),
        (snd (save_and_verify_model w self dest progress st))\<lparr>hub_endpoint := e\<rparr>)"
  by (simp add: save_and_verify_model_def requests_get_def
      split: sum.splits json.splits option.splits prod.splits)

lemma download_try_endpoint:
  "download_try w self mt progress (st\<lparr>hub_endpoint := e\<rparr>)
     = (fst (download_try w self mt progress st),
        (snd (download_try w self mt progress st))\<lparr>hub_endpoint := e\<rparr>)"
proof -
  obtain r st1 where sv:
    "save_and_verify_model w self (os_path_join (model_dir self) ''model.zip'') progress st = (r, st1)"
    by (cases "save_and_verify_model w self (os_path_join (model_dir self) ''model.zip'') progress st")
  show ?thesis
    using sv
    by (simp add: download_try_def Let_def save_and_verify_model_endpoint
        split: sum.splits option.splits prod.splits)
qed

lemma download_model_endpoint:
  "download_model w self mt progress (st\<lparr>hub_endpoint := e\<rparr>)
     = (fst (download_model w self mt progress st),
        (snd (download_model w self mt progress st))\<lparr>hub_endpoint := e\<rparr>)"
proof (cases "mkdir_parents (disk st) (model_dir self)")
  case (Inl a)
  then show ?thesis by (simp add: download_model_def)
next
  case (Inr d1)
  obtain r st2 where tr: "download_try w self mt progress (st\<lparr>disk := d1\<rparr>) = (r, st2)"
    by (cases "download_try w self mt progress (st\<lparr>disk := d1\<rparr>)")
  have eq: "st\<lparr>hub_endpoint := e, disk := d1\<rparr> = st\<lparr>disk := d1, hub_endpoint := e\<rparr>"
    by simp
  have "download_try w self mt progress (st\<lparr>hub_endpoint := e, disk := d1\<rparr>)
         = (r, st2\<lparr>hub_endpoint := e\<rparr>)"
    unfolding eq
    using download_try_endpoint[where st = "st\<lparr>disk := d1\<rparr>" and e = e and w = w
        and self = self and mt = mt and progress = progress] tr by simp
  then show ?thesis
    using Inr tr by (simp add: download_model_def Let_def split: sum.splits)
qed

lemma save_and_verify_model_log:
  "net_log (snd (save_and_verify_model w self dest progress st)) = net_log st
   \<or> (\<exists>u. url (model_url_and_hash self) = JStr u
          \<and> net_log (snd (save_and_verify_model w self dest progress st)) = net_log st @ [GET u])"
  by (simp add: save_and_verify_model_def requests_get_def
      split: sum.splits json.splits option.splits prod.splits)

lemma download_try_log:
  "net_log (snd (download_try w self mt progress st)) = net_log st
   \<or> (\<exists>u. url (model_url_and_hash self) = JStr u
          \<and> net_log (snd (download_try w self mt progress st)) = net_log st @ [GET u])"
proof -
  obtain r st1 where sv:
    "save_and_verify_model w self (os_path_join (model_dir self) ''model.zip'') progress st = (r, st1)"
    by (cases "save_and_verify_model w self (os_path_join (model_dir self) ''model.zip'') progress st")
  show ?thesis
    using sv save_and_verify_model_log[where st = st and w = w and self = self
        and progress = progress and dest = "os_path_join (model_dir self) ''model.zip''"]
    by (auto simp: download_try_def Let_def split: sum.splits option.splits prod.splits)
qed

lemma download_model_log:
  "net_log (snd (download_model w self mt progress st)) = net_log st
   \<or> (\<exists>u. url (model_url_and_hash self) = JStr u
          \<and> net_log (snd (download_model w self mt progress st)) = net_log st @ [GET u])"
proof (cases "mkdir_parents (disk st) (model_dir self)")
  case (Inl a)
  then show ?thesis by (simp add: download_model_def)
next
  case (Inr d1)
  obtain r st2 where tr: "download_try w self mt progress (st\<lparr>disk := d1\<rparr>) = (r, st2)"
    by (cases "download_try w self mt progress (st\<lparr>disk := d1\<rparr>)")
  show ?thesis
    using Inr tr download_try_log[where st = "st\<lparr>disk := d1\<rparr>" and w = w
        and self = self and mt = mt and progress = progress]
    by (auto simp: download_model_def Let_def split: sum.splits)
qed

lemma get_model_url_and_hash_state:
  "snd (get_model_url_and_hash w key secret st)
     = st\<lparr>net_log := net_log st @ [POST (hub_endpoint st) (api_params_of key secret)]\<rparr>"
  by (simp add: get_model_url_and_hash_def requests_post_def Let_def split: sum.splits)

lemma hub_model_init_state:
  "snd (hub_model_init w key secret hub_dir st)
     = st\<lparr>net_log := net_log st @ [POST (hub_endpoint st) (api_params_of key secret)]\<rparr>"
  using get_model_url_and_hash_state[of w key secret st]
  by (cases "get_model_url_and_hash w key secret st")
     (auto simp: hub_model_init_def split: sum.splits)

text \<open>The cache directory of a handle that the constructor returns is never the root.\<close>

lemma hub_model_init_model_dir:
  "hub_model_init w key secret hub_dir st = (Inr self, st') \<Longrightarrow> model_dir self \<noteq> []"
  by (cases "get_model_url_and_hash w key secret st")
     (auto simp: hub_model_init_def os_path_join_def split: sum.splits option.splits)

lemma get_model_url_and_hash_ready:
  assumes "http_post w (hub_endpoint st) (api_params_of key secret) = Inr r"
    and "\<not> raise_for_status r"
    and "json_body r = Some j"
    and "subscript j ''status'' = Inr (JStr ''ready'')"
    and "subscript j ''projectSecretNeeded'' = Inr needed"
    and "subscript j ''signedUrl'' = Inr u"
    and "subscript j ''hash'' = Inr h"
  shows "fst (get_model_url_and_hash w key secret st) = Inr \<lparr>url = u, checksum = h\<rparr>"
  using assms by (simp add: get_model_url_and_hash_def requests_post_def Let_def)

section \<open>Lemmas on the label map\<close>

lemma split_on_nonempty: "split_on c s \<noteq> []"
  by (induction s) auto

lemma split_on_no_sep: "c \<notin> set t \<Longrightarrow> split_on c t = [t]"
  by (induction t) auto

lemma last_split_on: "c \<notin> set t \<Longrightarrow> last (split_on c (key @ c # t)) = t"
proof (induction key)
  case Nil
  then show ?case by (simp add: split_on_no_sep)
next
  case (Cons k key)
  show ?case
  proof (cases "k = c")
    case True
    then show ?thesis using Cons by (simp add: split_on_nonempty)
  next
    case False
    have "split_on c (key @ c # t) \<noteq> []" by (rule split_on_nonempty)
    moreover have "length (split_on c (key @ c # t)) \<ge> 2"
      by (induction key) (auto simp: split_on_nonempty Suc_le_eq intro: Suc_leI)
    ultimately have "tl (split_on c (key @ c # t)) \<noteq> []"
      by (cases "split_on c (key @ c # t)") auto
    then show ?thesis using False Cons by (simp add: last_tl)
  qed
qed

lemma id_line_index: "id_line_of i l \<Longrightarrow> label_index_of l = Some i"
  by (auto simp: id_line_of_def label_index_of_def last_split_on)

lemma name_line_name: "name_line_of nm l \<Longrightarrow> label_name_of l = nm"
  by (auto simp: name_line_of_def label_name_of_def last_split_on)

lemma label_loop_no_id:
  "\<forall>l \<in> set ls. \<not> sublist ''id'' l \<Longrightarrow> label_loop ls m = Inr m"
  by (induction ls m rule: label_loop.induct) auto

lemma label_loop_skip:
  "\<forall>l \<in> set f. \<not> sublist ''id'' l \<Longrightarrow>
   label_loop (f @ a # b # following) m = label_loop (a # b # following) m"
proof (induction f)
  case Nil
  then show ?case by simp
next
  case (Cons l f)
  then show ?case by (cases f) auto
qed

lemma label_loop_record:
  assumes "record_ok r"
  shows "label_loop (record_lines r @ following) m = label_loop following (assign r m)"
proof -
  have f: "\<forall>l \<in> set (lines_before r). \<not> sublist ''id'' l"
    and i: "id_line_of (rec_id r) (id_line r)"
    and n: "name_line_of (rec_name r) (name_line r)"
    using assms by (simp_all add: record_ok_def)
  have s: "sublist ''id'' (id_line r)"
    using i by (simp add: id_line_of_def)
  have "label_loop (record_lines r @ following) m
          = label_loop (id_line r # name_line r # following) m"
    using f by (simp add: record_lines_def label_loop_skip)
  also have "\<dots> = label_loop following (assign r m)"
    using s id_line_index[OF i] name_line_name[OF n]
    by (simp add: label_of_def assign_def)
  finally show ?thesis .
qed

lemma label_loop_records:
  "\<forall>r \<in> set recs. record_ok r \<Longrightarrow> \<forall>l \<in> set rest. \<not> sublist ''id'' l \<Longrightarrow>
   label_loop (concat (map record_lines recs) @ rest) m
     = Inr (fold assign recs m)"
proof (induction recs arbitrary: m)
  case Nil
  then show ?case by (simp add: label_loop_no_id)
next
  case (Cons r recs)
  then show ?case by (simp add: label_loop_record)
qed

lemma fold_update_dom:
  "dom (fold assign recs m) = dom m \<union> rec_id ` set recs"
  by (induction recs arbitrary: m) (auto simp: assign_def)

lemma fold_update_other:
  "k \<notin> rec_id ` set recs \<Longrightarrow> fold assign recs m k = m k"
  by (induction recs arbitrary: m) (auto simp: assign_def)

lemma fold_update_last:
  "rec_id r \<notin> rec_id ` set rs2 \<Longrightarrow>
   fold assign (rs1 @ r # rs2) m (rec_id r) = Some (label_of r)"
  by (simp add: fold_update_other assign_def)


subsection \<open>Unfolding the concrete values\<close>

lemmas ex_defs = ex_state_def ex_disk_fresh_def ex_disk_cached_def ex_dir_def ex_handle_def
  ex_world_def ex_download_def ex_registry_response_def ex_registry_json_def ex_url_def
  ex_archive_def ex_members_def default_hub_endpoint_def

lemmas fs_defs = lookup_def os_path_join_def os_path_exists_def os_path_isdir_def os_mkdir_def
  mkdir_single_def mkdir_parents.simps os_makedirs.simps shutil_rmtree_def open_wb_def
  file_write_def read_file_def os_remove_def extract_member_def member_path_def

lemmas run_defs = download_model_def download_try_def save_and_verify_model_def
  requests_get_def raise_for_status_def py_int_def strip_def strip_chars_def is_space_def
  is_int_space_def int_max_str_digits_def decimal_def is_digit_def digit_val_def chunks.simps
  get_sha256_hash_of_file_def Let_def

lemmas label_defs = load_label_map_def load_label_map_from_file_def label_index_of_def
  label_name_of_def py_int_def strip_def strip_chars_def is_space_def is_int_space_def
  is_ascii_def int_max_str_digits_def decimal_def is_digit_def
  digit_val_def Let_def sublist_code(3)

lemma ex_record_cat_ok: "record_ok ex_record_cat"
  unfolding record_ok_def id_line_of_def name_line_of_def ex_record_cat_def
  apply (intro conjI)
     apply (simp add: sublist_code(3))
    apply (simp add: sublist_code(3))
   apply (rule exI[of _ "''  id''"], rule exI[of _ "'' 1'' @ [CHR 0x0A]"])
   apply (simp add: label_defs)
  apply (rule exI[of _ "''  name''"],
      rule exI[of _ "'' '' @ [CHR 0x27] @ ''cat'' @ [CHR 0x27] @ [CHR 0x0A]"])
  apply (simp add: label_defs)
  done

lemma ex_record_dog_ok: "record_ok ex_record_dog"
  unfolding record_ok_def id_line_of_def name_line_of_def ex_record_dog_def
  apply (intro conjI)
     apply (simp add: sublist_code(3))
    apply (simp add: sublist_code(3))
   apply (rule exI[of _ "''  id''"], rule exI[of _ "'' 2'' @ [CHR 0x0A]"])
   apply (simp add: label_defs)
  apply (rule exI[of _ "''  name''"],
      rule exI[of _ "'' '' @ [CHR 0x27] @ ''dog'' @ [CHR 0x27] @ [CHR 0x0A]"])
  apply (simp add: label_defs)
  done


text \<open>
  \<^verbatim>\<open>int()\<close> does not pass over the separator 0x1C, which \<^verbatim>\<open>str.strip()\<close> does:
  an id line that ends with it raises \<^verbatim>\<open>ValueError\<close>. A file with a byte outside
  ASCII is left to the world.
\<close>

lemma load_label_map_separator_raises:
  "load_label_map (ex_world (ex_registry_response 200 ''ready'') (ex_download None ex_archive))
     ex_handle
     (ex_state (ex_disk_cached(ex_dir @ [''label_map.pbtxt''] \<mapsto>
        File (''id: 1'' @ [CHR 0x1C, CHR 0x0A] @ ''name: x'' @ [CHR 0x0A]))))
   = Inl (ValueError Library)"
  by (simp add: ex_defs fs_defs label_defs)

lemma load_label_map_non_ascii:
  "read_file (disk st) (model_dir self @ [''label_map.pbtxt'']) = Inr c \<Longrightarrow> \<not> is_ascii c \<Longrightarrow>
   load_label_map w self st = non_ascii_label_map w c"
  by (simp add: load_label_map_def load_label_map_from_file_def os_path_join_def)

section \<open>Properties\<close>

text \<open>
  C8. \<^verbatim>\<open>get_pipeline_config_dir\<close> raises \<^verbatim>\<open>FileNotFoundError\<close> naming the model key
  when the cache directory does not exist, raises \<^verbatim>\<open>FileNotFoundError\<close> with another
  message (the one that says to call \<^verbatim>\<open>load_tf_model\<close> with
  \<^verbatim>\<open>force_download\<close>) when the directory exists and \<^verbatim>\<open>pipeline.config\<close> is not in
  it, and returns the path of \<^verbatim>\<open>pipeline.config\<close> inside the directory otherwise.
\<close>

theorem get_pipeline_config_dir_cases:
  "(\<not> os_path_exists (disk st) (model_dir self) \<longrightarrow>
      get_pipeline_config_dir self st =
        Inl (FileNotFoundError
              (Msg (''The directory for model key '' @ model_key self @ '' does not exist.''))))
   \<and> (os_path_exists (disk st) (model_dir self)
        \<and> \<not> os_path_exists (disk st) (model_dir self @ [''pipeline.config'']) \<longrightarrow>
      get_pipeline_config_dir self st = Inl (FileNotFoundError (Msg pipeline_missing_message)))
   \<and> (os_path_exists (disk st) (model_dir self)
        \<and> os_path_exists (disk st) (model_dir self @ [''pipeline.config'']) \<longrightarrow>
      get_pipeline_config_dir self st = Inr (model_dir self @ [''pipeline.config'']))
   \<and> pipeline_missing_message
        \<noteq> ''The directory for model key '' @ model_key self @ '' does not exist.''"
  by (simp add: get_pipeline_config_dir_def os_path_join_def pipeline_missing_message_def)

theorem get_pipeline_config_dir_cases_witness:
  "\<not> os_path_exists (disk (ex_state ex_disk_fresh)) (model_dir ex_handle)
   \<and> get_pipeline_config_dir ex_handle (ex_state ex_disk_fresh)
       = Inl (FileNotFoundError (Msg ''The directory for model key key1 does not exist.''))
   \<and> os_path_exists (disk (ex_state (ex_disk_cached(ex_dir @ [''pipeline.config''] := None))))
         (model_dir ex_handle)
   \<and> \<not> os_path_exists (disk (ex_state (ex_disk_cached(ex_dir @ [''pipeline.config''] := None))))
         (model_dir ex_handle @ [''pipeline.config''])
   \<and> get_pipeline_config_dir ex_handle
         (ex_state (ex_disk_cached(ex_dir @ [''pipeline.config''] := None)))
       = Inl (FileNotFoundError (Msg pipeline_missing_message))
   \<and> os_path_exists (disk (ex_state ex_disk_cached)) (model_dir ex_handle @ [''pipeline.config''])
   \<and> get_pipeline_config_dir ex_handle (ex_state ex_disk_cached)
       = Inr [''home'', ''user'', ''.dataturehub'', ''key1'', ''pipeline.config'']"
  using get_pipeline_config_dir_cases[of "ex_state ex_disk_fresh" ex_handle]
    get_pipeline_config_dir_cases
      [of "ex_state (ex_disk_cached(ex_dir @ [''pipeline.config''] := None))" ex_handle]
    get_pipeline_config_dir_cases[of "ex_state ex_disk_cached" ex_handle]
  by (simp add: ex_defs fs_defs)

text \<open>
  C2. When the directory has been made and the \<^verbatim>\<open>try\<close> block of
  \<^verbatim>\<open>download_model\<close> raises (in the download, the verification, the extraction or the
  removal of the archive), \<^verbatim>\<open>download_model\<close> raises that same exception, and on the
  disk it leaves the cache directory does not exist, nor anything below it.
  \<^verbatim>\<open>shutil.rmtree\<close> is taken to succeed.
\<close>

theorem download_model_rollback:
  assumes "mkdir_parents (disk st) (model_dir self) = Inr d1"
    and "download_try w self mt progress (st\<lparr>disk := d1\<rparr>) = (Inl exc, st2)"
    and "model_dir self \<noteq> []"
  shows "download_model w self mt progress st
           = (Inl exc, st2\<lparr>disk := shutil_rmtree (disk st2) (model_dir self)\<rparr>)
         \<and> (\<forall>q. prefix (model_dir self) q \<longrightarrow>
               shutil_rmtree (disk st2) (model_dir self) q = None)
         \<and> \<not> os_path_exists (shutil_rmtree (disk st2) (model_dir self)) (model_dir self)"
proof -
  have "lookup d1 (model_dir self) = Some Dir"
    using assms(1) by (rule mkdir_parents_isdir)
  moreover have "keeps_dirs d1 (disk st2)"
    using download_try_keeps[OF assms(2)] by simp
  ultimately have dir: "lookup (disk st2) (model_dir self) = Some Dir"
    by (simp add: keeps_dirs_def)
  have gone: "\<forall>q. prefix (model_dir self) q \<longrightarrow>
               shutil_rmtree (disk st2) (model_dir self) q = None"
    using dir by (simp add: rmtree_gone)
  have "download_model w self mt progress st
           = (Inl exc, st2\<lparr>disk := shutil_rmtree (disk st2) (model_dir self)\<rparr>)"
    using assms(1,2) by (simp add: download_model_def)
  then show ?thesis using gone prefix_self_None[OF gone assms(3)] by simp
qed

text \<open>
  Two failing runs on a fresh disk: a body whose digest is not the expected one, sent
  with a \<^verbatim>\<open>content-length\<close> header, and a body that is not a zip archive.
\<close>

theorem download_model_rollback_witness:
  "(\<exists>d1 st2.
      mkdir_parents (disk (ex_state ex_disk_fresh)) (model_dir ex_handle) = Inr d1
      \<and> download_try (ex_world (ex_registry_response 200 ''ready'')
                         (ex_download (Some ''7'') ''corrupt''))
            ex_handle TF True (ex_state ex_disk_fresh\<lparr>disk := d1\<rparr>)
          = (Inl (RuntimeError (Checksum_mismatch ''000000'' (JStr ''abc123''))), st2))
   \<and> model_dir ex_handle \<noteq> []
   \<and> fst (download_model (ex_world (ex_registry_response 200 ''ready'')
                             (ex_download (Some ''7'') ''corrupt''))
             ex_handle TF True (ex_state ex_disk_fresh))
       = Inl (RuntimeError (Checksum_mismatch ''000000'' (JStr ''abc123'')))
   \<and> \<not> os_path_exists
         (disk (snd (download_model (ex_world (ex_registry_response 200 ''ready'')
                                       (ex_download (Some ''7'') ''corrupt''))
                       ex_handle TF True (ex_state ex_disk_fresh))))
         ex_dir
   \<and> fst (download_model (ex_world (ex_registry_response 200 ''ready'')
                             (ex_download None ''corrupt''))
             ex_handle TF True (ex_state ex_disk_fresh))
       = Inl BadZipFile
   \<and> \<not> os_path_exists
         (disk (snd (download_model (ex_world (ex_registry_response 200 ''ready'')
                                       (ex_download None ''corrupt''))
                       ex_handle TF True (ex_state ex_disk_fresh))))
         ex_dir"
proof -
  let ?w = "ex_world (ex_registry_response 200 ''ready'') (ex_download (Some ''7'') ''corrupt'')"
  let ?w' = "ex_world (ex_registry_response 200 ''ready'') (ex_download None ''corrupt'')"
  let ?e = "RuntimeError (Checksum_mismatch ''000000'' (JStr ''abc123''))"
  define d1 where
    "d1 = projr (mkdir_parents (disk (ex_state ex_disk_fresh)) (model_dir ex_handle))"
  define st2 where
    "st2 = snd (download_try ?w ex_handle TF True (ex_state ex_disk_fresh\<lparr>disk := d1\<rparr>))"
  define st2' where
    "st2' = snd (download_try ?w' ex_handle TF True (ex_state ex_disk_fresh\<lparr>disk := d1\<rparr>))"
  have m: "mkdir_parents (disk (ex_state ex_disk_fresh)) (model_dir ex_handle) = Inr d1"
    unfolding d1_def by (simp add: ex_defs fs_defs)
  have t: "download_try ?w ex_handle TF True (ex_state ex_disk_fresh\<lparr>disk := d1\<rparr>)
             = (Inl ?e, st2)"
    unfolding st2_def d1_def by (simp add: ex_defs fs_defs run_defs)
  have t': "download_try ?w' ex_handle TF True (ex_state ex_disk_fresh\<lparr>disk := d1\<rparr>)
             = (Inl BadZipFile, st2')"
    unfolding st2'_def d1_def by (simp add: ex_defs fs_defs run_defs)
  have n: "model_dir ex_handle \<noteq> []"
    by (simp add: ex_defs)
  show ?thesis
    using download_model_rollback[OF m t n] download_model_rollback[OF m t' n] m t n
    by (auto simp: ex_handle_def)
qed

text \<open>
  C10. When the cache directory is there and \<^verbatim>\<open>download_model\<close> is called with a
  model type other than \<^verbatim>\<open>ModelType.TF\<close>, it raises \<^verbatim>\<open>ValueError\<close>, makes no
  network call, and the cache directory with everything below it is removed.
\<close>

theorem download_model_invalid_type:
  assumes "os_path_isdir (disk st) (model_dir self)" and "mt \<noteq> TF" and "model_dir self \<noteq> []"
  shows "download_model w self mt progress st
           = (Inl (ValueError (Invalid_model_type mt)),
              st\<lparr>disk := shutil_rmtree (disk st) (model_dir self)\<rparr>)
         \<and> (\<forall>q. prefix (model_dir self) q \<longrightarrow>
               shutil_rmtree (disk st) (model_dir self) q = None)
         \<and> \<not> os_path_exists (shutil_rmtree (disk st) (model_dir self)) (model_dir self)"
proof -
  have dir: "lookup (disk st) (model_dir self) = Some Dir"
    using assms(1) by (simp add: os_path_isdir_def)
  have gone: "\<forall>q. prefix (model_dir self) q \<longrightarrow>
               shutil_rmtree (disk st) (model_dir self) q = None"
    using dir by (simp add: rmtree_gone)
  have "download_model w self mt progress st
           = (Inl (ValueError (Invalid_model_type mt)),
              st\<lparr>disk := shutil_rmtree (disk st) (model_dir self)\<rparr>)"
    using assms(2) by (simp add: download_model_def download_try_def mkdir_parents_existing[OF dir])
  then show ?thesis using gone prefix_self_None[OF gone assms(3)] by simp
qed

theorem download_model_invalid_type_witness:
  "os_path_isdir (disk (ex_state ex_disk_cached)) (model_dir ex_handle)
   \<and> Other_value ''TF'' \<noteq> TF
   \<and> model_dir ex_handle \<noteq> []
   \<and> fst (download_model (ex_world (ex_registry_response 200 ''ready'')
                             (ex_download None ex_archive))
             ex_handle (Other_value ''TF'') True (ex_state ex_disk_cached))
       = Inl (ValueError (Invalid_model_type (Other_value ''TF'')))
   \<and> net_log (snd (download_model (ex_world (ex_registry_response 200 ''ready'')
                             (ex_download None ex_archive))
             ex_handle (Other_value ''TF'') True (ex_state ex_disk_cached))) = []
   \<and> \<not> os_path_exists
         (disk (snd (download_model (ex_world (ex_registry_response 200 ''ready'')
                                       (ex_download None ex_archive))
                       ex_handle (Other_value ''TF'') True (ex_state ex_disk_cached))))
         ex_dir
   \<and> disk (snd (download_model (ex_world (ex_registry_response 200 ''ready'')
                                       (ex_download None ex_archive))
                       ex_handle (Other_value ''TF'') True (ex_state ex_disk_cached)))
         (ex_dir @ [''pipeline.config'']) = None"
proof -
  have a: "os_path_isdir (disk (ex_state ex_disk_cached)) (model_dir ex_handle)"
    by (simp add: ex_defs fs_defs)
  have b: "Other_value ''TF'' \<noteq> TF" by simp
  have c: "model_dir ex_handle \<noteq> []" by (simp add: ex_defs)
  show ?thesis
    using download_model_invalid_type[OF a b c] a c
    by (simp add: ex_handle_def ex_state_def ex_dir_def)
qed

text \<open>
  C5. When the destination can be opened, the GET succeeds and the response has no
  \<^verbatim>\<open>content-length\<close> header, \<^verbatim>\<open>_save_and_verify_model\<close> returns without an
  exception and the destination file holds exactly the body of the response.
\<close>

theorem save_and_verify_model_no_length:
  assumes "open_wb (disk st) dest = Inr d1"
    and "url (model_url_and_hash self) = JStr u"
    and "http_get w u = Inr r"
    and "\<not> raise_for_status r"
    and "content_length r = None"
  shows "save_and_verify_model w self dest progress st
           = (Inr (), st\<lparr>disk := d1(dest \<mapsto> File (content r)),
                         net_log := net_log st @ [GET u]\<rparr>)"
  using assms open_wb_Inr[OF assms(1)]
  by (simp add: save_and_verify_model_def requests_get_def file_write_def)

theorem save_and_verify_model_no_length_witness:
  "open_wb (disk (ex_state ex_disk_cached)) (ex_dir @ [''model.zip''])
     = Inr (ex_disk_cached(ex_dir @ [''model.zip''] \<mapsto> File []))
   \<and> url (model_url_and_hash ex_handle) = JStr ex_url
   \<and> http_get (ex_world (ex_registry_response 200 ''ready'') (ex_download None ''any bytes''))
        ex_url = Inr (ex_download None ''any bytes'')
   \<and> \<not> raise_for_status (ex_download None ''any bytes'')
   \<and> content_length (ex_download None ''any bytes'') = None
   \<and> fst (save_and_verify_model
             (ex_world (ex_registry_response 200 ''ready'') (ex_download None ''any bytes''))
             ex_handle (ex_dir @ [''model.zip'']) True (ex_state ex_disk_cached)) = Inr ()
   \<and> disk (snd (save_and_verify_model
             (ex_world (ex_registry_response 200 ''ready'') (ex_download None ''any bytes''))
             ex_handle (ex_dir @ [''model.zip'']) True (ex_state ex_disk_cached)))
        (ex_dir @ [''model.zip'']) = Some (File ''any bytes'')"
proof -
  let ?r = "ex_download None ''any bytes''"
  let ?w = "ex_world (ex_registry_response 200 ''ready'') ?r"
  have a: "open_wb (disk (ex_state ex_disk_cached)) (ex_dir @ [''model.zip''])
             = Inr (ex_disk_cached(ex_dir @ [''model.zip''] \<mapsto> File []))"
    by (simp add: ex_defs fs_defs)
  have b: "url (model_url_and_hash ex_handle) = JStr ex_url" by (simp add: ex_handle_def)
  have c: "http_get ?w ex_url = Inr ?r" by (simp add: ex_world_def)
  have d: "\<not> raise_for_status ?r" by (simp add: raise_for_status_def ex_download_def)
  have e: "content_length ?r = None" by (simp add: ex_download_def)
  show ?thesis
    using save_and_verify_model_no_length[OF a b c d e, of True] a b c d e
    by (simp add: ex_download_def)
qed

text \<open>
  C3. When the cache directory exists, \<^verbatim>\<open>load_tf_model\<close> without
  \<^verbatim>\<open>force_download\<close> leaves the state as it is (the log of network calls included)
  and hands \<^verbatim>\<open>saved_model\<close> inside the cache directory to the loader; a second call
  does the same and gives the same result.
\<close>

theorem load_tf_model_reuse:
  assumes "os_path_exists (disk st) (model_dir self)"
  shows "load_tf_model w saved_model_load self False progress st
           = (saved_model_load (disk st) (model_dir self @ [''saved_model'']), st)
         \<and> load_tf_model w saved_model_load self False progress'
             (snd (load_tf_model w saved_model_load self False progress st))
           = (saved_model_load (disk st) (model_dir self @ [''saved_model'']), st)"
  using assms by (simp add: load_tf_model_def os_path_join_def)

theorem load_tf_model_reuse_witness:
  "os_path_exists (disk (ex_state ex_disk_cached)) (model_dir ex_handle)
   \<and> load_tf_model (ex_world (ex_registry_response 200 ''ready'') (ex_download None ex_archive))
        (\<lambda>d p. if os_path_isdir d p then Inr p else Inl (FileNotFoundError Library))
        ex_handle False True (ex_state ex_disk_cached)
      = (Inr (ex_dir @ [''saved_model'']), ex_state ex_disk_cached)
   \<and> load_tf_model (ex_world (ex_registry_response 200 ''ready'') (ex_download None ex_archive))
        (\<lambda>d p. if os_path_isdir d p then Inr p else Inl (FileNotFoundError Library))
        ex_handle False True
        (snd (load_tf_model
                (ex_world (ex_registry_response 200 ''ready'') (ex_download None ex_archive))
                (\<lambda>d p. if os_path_isdir d p then Inr p else Inl (FileNotFoundError Library))
                ex_handle False True (ex_state ex_disk_cached)))
      = (Inr (ex_dir @ [''saved_model'']), ex_state ex_disk_cached)
   \<and> net_log (ex_state ex_disk_cached) = []"
proof -
  have a: "os_path_exists (disk (ex_state ex_disk_cached)) (model_dir ex_handle)"
    by (simp add: ex_defs fs_defs)
  have l: "os_path_isdir (disk (ex_state ex_disk_cached)) (model_dir ex_handle @ [''saved_model''])"
    by (simp add: ex_defs fs_defs)
  show ?thesis
    using load_tf_model_reuse[OF a,
        where w = "ex_world (ex_registry_response 200 ''ready'') (ex_download None ex_archive)"
        and saved_model_load =
          "\<lambda>d p. if os_path_isdir d p then Inr p else Inl (FileNotFoundError Library)"
        and progress = True and progress' = True] a l
    by (simp add: ex_handle_def ex_state_def)
qed

text \<open>
  C6. When \<^verbatim>\<open>download_model\<close> returns, it returns the cache directory, and
  \<^verbatim>\<open>model.zip\<close> is not in it: the run made the directory, downloaded the archive,
  extracted all its members without an exception while the archive file was still
  there, and then removed the archive file, which is the only change after the
  extraction. Every member that no later member of the same name replaces, other than
  one named \<^verbatim>\<open>model.zip\<close>, is in the cache directory at the end.
\<close>

theorem download_model_success:
  assumes "download_model w self mt progress st = (Inr folder, st')"
  shows "folder = model_dir self
         \<and> \<not> os_path_exists (disk st') (model_dir self @ [''model.zip''])
         \<and> (\<exists>d1 st1 archive members d2 c.
               mkdir_parents (disk st) (model_dir self) = Inr d1
               \<and> save_and_verify_model w self (model_dir self @ [''model.zip'']) progress
                     (st\<lparr>disk := d1\<rparr>) = (Inr (), st1)
               \<and> read_file (disk st1) (model_dir self @ [''model.zip'']) = Inr archive
               \<and> zip_members w archive = Inr members
               \<and> extractall (disk st1) (model_dir self) members = (None, d2)
               \<and> lookup d2 (model_dir self @ [''model.zip'']) = Some (File c)
               \<and> st' = st1\<lparr>disk := d2(model_dir self @ [''model.zip''] := None)\<rparr>
               \<and> (\<forall>ms1 m ms2.
                     members = ms1 @ m # ms2
                     \<and> (\<forall>m' \<in> set ms2. member_path m' \<noteq> member_path m)
                     \<and> member_path m \<noteq> [''model.zip'']
                     \<longrightarrow> member_present (disk st') (model_dir self) m))"
proof -
  let ?zip = "model_dir self @ [''model.zip'']"
  from assms obtain d1 st2 where
    mk: "mkdir_parents (disk st) (model_dir self) = Inr d1" and
    tr: "download_try w self mt progress (st\<lparr>disk := d1\<rparr>) = (Inr (), st2)" and
    res: "folder = model_dir self" "st' = st2"
    by (auto simp: download_model_def Let_def split: sum.splits prod.splits)
  from tr obtain st1 archive members d2 d3 where
    sv: "save_and_verify_model w self ?zip progress (st\<lparr>disk := d1\<rparr>) = (Inr (), st1)" and
    rd: "read_file (disk st1) ?zip = Inr archive" and
    zm: "zip_members w archive = Inr members" and
    ex: "extractall (disk st1) (model_dir self) members = (None, d2)" and
    rm: "os_remove d2 ?zip = Inr d3" and
    st2: "st2 = st1\<lparr>disk := d3\<rparr>"
    by (auto simp: download_try_def Let_def os_path_join_def
        split: sum.splits prod.splits if_splits option.splits)
  from os_remove_Inr[OF rm] obtain c where
    d3: "d3 = d2(?zip := None)" and c: "lookup d2 ?zip = Some (File c)"
    by auto
  have final: "st' = st1\<lparr>disk := d2(?zip := None)\<rparr>"
    using res st2 d3 by simp
  have gone: "\<not> os_path_exists (disk st') ?zip"
    using final by (simp add: os_path_exists_def lookup_def)
  have present: "member_present (disk st') (model_dir self) m"
    if "members = ms1 @ m # ms2" "\<forall>m' \<in> set ms2. member_path m' \<noteq> member_path m"
      "member_path m \<noteq> [''model.zip'']" for ms1 m ms2
  proof -
    have "member_present d2 (model_dir self) m"
      using extractall_present[of "disk st1" "model_dir self" ms1 m ms2 d2] ex that by simp
    then show ?thesis
      using member_present_remove that(3) final by simp
  qed
  show ?thesis
    using res(1) gone mk sv rd zm ex c final present by blast
qed

theorem download_model_success_witness:
  "download_model (ex_world (ex_registry_response 200 ''ready'')
                     (ex_download (Some ''10'') ex_archive))
     ex_handle TF True (ex_state ex_disk_fresh)
     = (Inr ex_dir,
        snd (download_model (ex_world (ex_registry_response 200 ''ready'')
                               (ex_download (Some ''10'') ex_archive))
               ex_handle TF True (ex_state ex_disk_fresh)))
   \<and> \<not> os_path_exists
         (disk (snd (download_model (ex_world (ex_registry_response 200 ''ready'')
                                       (ex_download (Some ''10'') ex_archive))
                       ex_handle TF True (ex_state ex_disk_fresh))))
         (ex_dir @ [''model.zip''])
   \<and> member_present
         (disk (snd (download_model (ex_world (ex_registry_response 200 ''ready'')
                                       (ex_download (Some ''10'') ex_archive))
                       ex_handle TF True (ex_state ex_disk_fresh))))
         ex_dir (ZFile [''pipeline.config''] (Inr ''config''))"
proof -
  let ?w = "ex_world (ex_registry_response 200 ''ready'') (ex_download (Some ''10'') ex_archive)"
  let ?run = "download_model ?w ex_handle TF True (ex_state ex_disk_fresh)"
  have r: "?run = (Inr ex_dir, snd ?run)"
    by (simp add: ex_defs fs_defs run_defs)
  have p: "member_present (disk (snd ?run)) ex_dir (ZFile [''pipeline.config''] (Inr ''config''))"
    by (simp add: ex_defs fs_defs run_defs member_present_def)
  show ?thesis
    using download_model_success[OF r] r p by (simp add: ex_handle_def)
qed

text \<open>
  C7. A constructor called after \<^verbatim>\<open>_set_hub_endpoint(e)\<close> posts to \<open>e\<close>, and the
  handle it returns carries the URL and the checksum that the registry at \<open>e\<close> gave.
  For a handle that exists already, \<^verbatim>\<open>download_model\<close> after the change does what it
  does without the change: same result, same disk, same network calls, and the only
  request it can make is a GET at the URL stored in the handle. (A handle is a value of
  its own; the setter changes the configuration only.)
\<close>

theorem endpoint_change:
  "snd (hub_model_init w key secret hub_dir (set_hub_endpoint e st))
     = st\<lparr>hub_endpoint := e, net_log := net_log st @ [POST e (api_params_of key secret)]\<rparr>
   \<and> (http_post w e (api_params_of key secret) = Inr r \<and> \<not> raise_for_status r
        \<and> json_body r = Some j
        \<and> subscript j ''status'' = Inr (JStr ''ready'')
        \<and> subscript j ''projectSecretNeeded'' = Inr needed
        \<and> subscript j ''signedUrl'' = Inr u \<and> subscript j ''hash'' = Inr h
      \<longrightarrow> (\<exists>self'. fst (hub_model_init w key secret hub_dir (set_hub_endpoint e st)) = Inr self'
                   \<and> model_url_and_hash self' = \<lparr>url = u, checksum = h\<rparr>))
   \<and> download_model w self mt progress (set_hub_endpoint e st)
       = (fst (download_model w self mt progress st),
          set_hub_endpoint e (snd (download_model w self mt progress st)))
   \<and> (net_log (snd (download_model w self mt progress (set_hub_endpoint e st))) = net_log st
       \<or> (\<exists>u'. url (model_url_and_hash self) = JStr u'
              \<and> net_log (snd (download_model w self mt progress (set_hub_endpoint e st)))
                  = net_log st @ [GET u']))"
proof -
  have a: "snd (hub_model_init w key secret hub_dir (set_hub_endpoint e st))
     = st\<lparr>hub_endpoint := e, net_log := net_log st @ [POST e (api_params_of key secret)]\<rparr>"
    by (simp add: hub_model_init_state set_hub_endpoint_def)
  have b: "\<exists>self'. fst (hub_model_init w key secret hub_dir (set_hub_endpoint e st)) = Inr self'
                   \<and> model_url_and_hash self' = \<lparr>url = u, checksum = h\<rparr>"
    if "http_post w e (api_params_of key secret) = Inr r" "\<not> raise_for_status r"
      "json_body r = Some j" "subscript j ''status'' = Inr (JStr ''ready'')"
      "subscript j ''projectSecretNeeded'' = Inr needed"
      "subscript j ''signedUrl'' = Inr u" "subscript j ''hash'' = Inr h"
  proof -
    have "fst (get_model_url_and_hash w key secret (set_hub_endpoint e st))
            = Inr \<lparr>url = u, checksum = h\<rparr>"
      using that by (intro get_model_url_and_hash_ready) (simp_all add: set_hub_endpoint_def)
    then show ?thesis
      by (cases "get_model_url_and_hash w key secret (set_hub_endpoint e st)")
         (simp add: hub_model_init_def)
  qed
  have c: "download_model w self mt progress (set_hub_endpoint e st)
       = (fst (download_model w self mt progress st),
          set_hub_endpoint e (snd (download_model w self mt progress st)))"
    by (simp add: set_hub_endpoint_def download_model_endpoint)
  have d: "net_log (snd (download_model w self mt progress (set_hub_endpoint e st))) = net_log st
       \<or> (\<exists>u'. url (model_url_and_hash self) = JStr u'
              \<and> net_log (snd (download_model w self mt progress (set_hub_endpoint e st)))
                  = net_log st @ [GET u'])"
    using download_model_log[of w self mt progress "set_hub_endpoint e st"]
    by (simp add: set_hub_endpoint_def)
  show ?thesis using a b c d by blast
qed

text \<open>
  A handle is made at the default endpoint, the endpoint is changed, and the handle
  downloads: the GET goes to the URL the handle got at its construction, while a handle
  made after the change gets the other registry's URL and checksum.
\<close>

theorem endpoint_change_witness:
  "hub_model_init (ex_world (ex_registry_response 200 ''ready'') (ex_download None ex_archive))
      ''key1'' None None (ex_state ex_disk_fresh)
     = (Inr ex_handle,
        \<lparr>hub_endpoint = default_hub_endpoint, disk = ex_disk_fresh,
         net_log = [POST default_hub_endpoint [(''modelKey'', ''key1'')]]\<rparr>)
   \<and> (\<exists>self'.
        fst (hub_model_init
               (ex_world (ex_registry_response 200 ''ready'') (ex_download None ex_archive))
               ''key1'' None None
               (set_hub_endpoint ''https://other.example/hub''
                  \<lparr>hub_endpoint = default_hub_endpoint, disk = ex_disk_fresh,
                   net_log = [POST default_hub_endpoint [(''modelKey'', ''key1'')]]\<rparr>))
          = Inr self'
        \<and> model_url_and_hash self'
            = \<lparr>url = JStr ''https://other.example/m.zip'', checksum = JStr ''fff999''\<rparr>)
   \<and> fst (download_model
             (ex_world (ex_registry_response 200 ''ready'') (ex_download None ex_archive))
             ex_handle TF True
             (set_hub_endpoint ''https://other.example/hub''
                \<lparr>hub_endpoint = default_hub_endpoint, disk = ex_disk_fresh,
                 net_log = [POST default_hub_endpoint [(''modelKey'', ''key1'')]]\<rparr>))
       = Inr ex_dir
   \<and> net_log (snd (download_model
             (ex_world (ex_registry_response 200 ''ready'') (ex_download None ex_archive))
             ex_handle TF True
             (set_hub_endpoint ''https://other.example/hub''
                \<lparr>hub_endpoint = default_hub_endpoint, disk = ex_disk_fresh,
                 net_log = [POST default_hub_endpoint [(''modelKey'', ''key1'')]]\<rparr>)))
       = [POST default_hub_endpoint [(''modelKey'', ''key1'')], GET ex_url]"
proof -
  let ?w = "ex_world (ex_registry_response 200 ''ready'') (ex_download None ex_archive)"
  let ?st1 = "\<lparr>hub_endpoint = default_hub_endpoint, disk = ex_disk_fresh,
         net_log = [POST default_hub_endpoint [(''modelKey'', ''key1'')]]\<rparr>"
  let ?e = "''https://other.example/hub''"
  let ?j = "JObj [(''status'', JStr ''ready''), (''projectSecretNeeded'', JBool False),
                  (''signedUrl'', JStr ''https://other.example/m.zip''),
                  (''hash'', JStr ''fff999'')]"
  let ?r = "\<lparr>status_code = 200, content_length = None, content = [], json_body = Some ?j\<rparr>"
  have i: "hub_model_init ?w ''key1'' None None (ex_state ex_disk_fresh) = (Inr ex_handle, ?st1)"
    by (simp add: ex_defs get_model_url_and_hash_def hub_model_init_def requests_post_def
        raise_for_status_def api_params_of_def subscript_def Let_def os_path_join_def
        get_default_hub_dir_def)
  have p: "http_post ?w ?e (api_params_of ''key1'' None) = Inr ?r"
    by (simp add: ex_world_def default_hub_endpoint_def)
  have q: "\<not> raise_for_status ?r" "json_body ?r = Some ?j"
    "subscript ?j ''status'' = Inr (JStr ''ready'')"
    "subscript ?j ''projectSecretNeeded'' = Inr (JBool False)"
    "subscript ?j ''signedUrl'' = Inr (JStr ''https://other.example/m.zip'')"
    "subscript ?j ''hash'' = Inr (JStr ''fff999'')"
    by (simp_all add: raise_for_status_def subscript_def)
  have d: "fst (download_model ?w ex_handle TF True ?st1) = Inr ex_dir"
    by (simp add: ex_defs fs_defs run_defs)
  have n: "net_log (snd (download_model ?w ex_handle TF True ?st1))
             = [POST default_hub_endpoint [(''modelKey'', ''key1'')], GET ex_url]"
    by (simp add: ex_defs fs_defs run_defs)
  note ec = endpoint_change[where w = ?w and key = "''key1''" and secret = None
        and hub_dir = None and e = ?e and st = ?st1 and r = ?r and j = ?j
        and needed = "JBool False" and u = "JStr ''https://other.example/m.zip''"
        and h = "JStr ''fff999''" and self = ex_handle and mt = TF and progress = True]
  from ec p q have b: "\<exists>self'.
        fst (hub_model_init ?w ''key1'' None None (set_hub_endpoint ?e ?st1)) = Inr self'
        \<and> model_url_and_hash self'
            = \<lparr>url = JStr ''https://other.example/m.zip'', checksum = JStr ''fff999''\<rparr>"
    by blast
  from ec have c: "download_model ?w ex_handle TF True (set_hub_endpoint ?e ?st1)
       = (fst (download_model ?w ex_handle TF True ?st1),
          set_hub_endpoint ?e (snd (download_model ?w ex_handle TF True ?st1)))"
    by blast
  have f: "fst (download_model ?w ex_handle TF True (set_hub_endpoint ?e ?st1)) = Inr ex_dir"
    by (simp add: c d)
  have g: "net_log (snd (download_model ?w ex_handle TF True (set_hub_endpoint ?e ?st1)))
             = [POST default_hub_endpoint [(''modelKey'', ''key1'')], GET ex_url]"
    by (subst c) (simp add: n set_hub_endpoint_def)
  show ?thesis
    using i b f g by blast
qed

text \<open>
  C4, as the code has it. A response of the registry with a status code from 400 to 599
  raises \<^verbatim>\<open>HTTPError\<close>, whatever its body says. A response with another status
  code whose JSON object has a \<^verbatim>\<open>status\<close> other than the string \<^verbatim>\<open>ready\<close> raises
  \<^verbatim>\<open>RuntimeError\<close> with the message that the model is not ready. In every case the
  constructor has made one POST and nothing else: no GET, no change of the disk.
\<close>

theorem resolver_errors:
  "(http_post w (hub_endpoint st) (api_params_of key secret) = Inr r
      \<and> 400 \<le> status_code r \<and> status_code r < 600
    \<longrightarrow> get_model_url_and_hash w key secret st
          = (Inl (HTTPError (status_code r)),
             st\<lparr>net_log := net_log st @ [POST (hub_endpoint st) (api_params_of key secret)]\<rparr>)
        \<and> fst (hub_model_init w key secret hub_dir st) = Inl (HTTPError (status_code r)))
   \<and> (http_post w (hub_endpoint st) (api_params_of key secret) = Inr r
      \<and> \<not> (400 \<le> status_code r \<and> status_code r < 600)
      \<and> json_body r = Some j \<and> subscript j ''status'' = Inr s \<and> s \<noteq> JStr ''ready''
    \<longrightarrow> get_model_url_and_hash w key secret st
          = (Inl (RuntimeError (Msg ''Model is not ready to download.'')),
             st\<lparr>net_log := net_log st @ [POST (hub_endpoint st) (api_params_of key secret)]\<rparr>)
        \<and> fst (hub_model_init w key secret hub_dir st)
            = Inl (RuntimeError (Msg ''Model is not ready to download.'')))
   \<and> snd (hub_model_init w key secret hub_dir st)
       = st\<lparr>net_log := net_log st @ [POST (hub_endpoint st) (api_params_of key secret)]\<rparr>"
proof -
  let ?st' = "st\<lparr>net_log := net_log st @ [POST (hub_endpoint st) (api_params_of key secret)]\<rparr>"
  have a: "get_model_url_and_hash w key secret st = (Inl (HTTPError (status_code r)), ?st')
           \<and> fst (hub_model_init w key secret hub_dir st) = Inl (HTTPError (status_code r))"
    if "http_post w (hub_endpoint st) (api_params_of key secret) = Inr r"
      "400 \<le> status_code r \<and> status_code r < 600"
    using that
    by (simp add: get_model_url_and_hash_def hub_model_init_def requests_post_def
        raise_for_status_def Let_def)
  have b: "get_model_url_and_hash w key secret st
             = (Inl (RuntimeError (Msg ''Model is not ready to download.'')), ?st')
           \<and> fst (hub_model_init w key secret hub_dir st)
               = Inl (RuntimeError (Msg ''Model is not ready to download.''))"
    if "http_post w (hub_endpoint st) (api_params_of key secret) = Inr r"
      "\<not> (400 \<le> status_code r \<and> status_code r < 600)"
      "json_body r = Some j" "subscript j ''status'' = Inr s" "s \<noteq> JStr ''ready''"
    using that
    by (simp add: get_model_url_and_hash_def hub_model_init_def requests_post_def
        raise_for_status_def Let_def)
  show ?thesis
    using a b hub_model_init_state[of w key secret hub_dir st] by blast
qed


theorem resolver_errors_witness:
  "http_post (ex_world (ex_registry_response 503 ''ready'') (ex_download None []))
        (hub_endpoint (ex_state ex_disk_fresh)) (api_params_of ''key1'' None)
       = Inr (ex_registry_response 503 ''ready'')
   \<and> (400::nat) \<le> status_code (ex_registry_response 503 ''ready'')
   \<and> status_code (ex_registry_response 503 ''ready'') < (600::nat)
   \<and> fst (hub_model_init
             (ex_world (ex_registry_response 503 ''ready'') (ex_download None []))
             ''key1'' None None (ex_state ex_disk_fresh))
       = Inl (HTTPError 503)
   \<and> http_post (ex_world (ex_registry_response 200 ''pending'') (ex_download None []))
        (hub_endpoint (ex_state ex_disk_fresh)) (api_params_of ''key1'' None)
       = Inr (ex_registry_response 200 ''pending'')
   \<and> json_body (ex_registry_response 200 ''pending'') = Some (ex_registry_json ''pending'')
   \<and> subscript (ex_registry_json ''pending'') ''status'' = Inr (JStr ''pending'')
   \<and> JStr ''pending'' \<noteq> JStr ''ready''
   \<and> hub_model_init
             (ex_world (ex_registry_response 200 ''pending'') (ex_download None []))
             ''key1'' None None (ex_state ex_disk_fresh)
       = (Inl (RuntimeError (Msg ''Model is not ready to download.'')),
          \<lparr>hub_endpoint = default_hub_endpoint, disk = ex_disk_fresh,
           net_log = [POST default_hub_endpoint [(''modelKey'', ''key1'')]]\<rparr>)"
proof -
  let ?w1 = "ex_world (ex_registry_response 503 ''ready'') (ex_download None [])"
  let ?w2 = "ex_world (ex_registry_response 200 ''pending'') (ex_download None [])"
  have p1: "http_post ?w1 (hub_endpoint (ex_state ex_disk_fresh)) (api_params_of ''key1'' None)
       = Inr (ex_registry_response 503 ''ready'')"
    by (simp add: ex_world_def ex_state_def)
  have c1: "400 \<le> status_code (ex_registry_response 503 ''ready'')
            \<and> status_code (ex_registry_response 503 ''ready'') < 600"
    by (simp add: ex_registry_response_def)
  have p2: "http_post ?w2 (hub_endpoint (ex_state ex_disk_fresh)) (api_params_of ''key1'' None)
       = Inr (ex_registry_response 200 ''pending'')"
    by (simp add: ex_world_def ex_state_def)
  have c2: "\<not> (400 \<le> status_code (ex_registry_response 200 ''pending'')
            \<and> status_code (ex_registry_response 200 ''pending'') < 600)"
    by (simp add: ex_registry_response_def)
  have j: "json_body (ex_registry_response 200 ''pending'') = Some (ex_registry_json ''pending'')"
    by (simp add: ex_registry_response_def)
  have s: "subscript (ex_registry_json ''pending'') ''status'' = Inr (JStr ''pending'')"
    by (simp add: ex_registry_json_def subscript_def)
  have n: "JStr ''pending'' \<noteq> JStr ''ready''" by simp
  have r1: "fst (hub_model_init ?w1 ''key1'' None None (ex_state ex_disk_fresh))
              = Inl (HTTPError 503)"
    using resolver_errors[where w = ?w1 and st = "ex_state ex_disk_fresh" and key = "''key1''"
        and secret = None and r = "ex_registry_response 503 ''ready''" and hub_dir = None] p1 c1
    by (simp add: ex_registry_response_def)
  have r2: "hub_model_init ?w2 ''key1'' None None (ex_state ex_disk_fresh)
       = (Inl (RuntimeError (Msg ''Model is not ready to download.'')),
          \<lparr>hub_endpoint = default_hub_endpoint, disk = ex_disk_fresh,
           net_log = [POST default_hub_endpoint [(''modelKey'', ''key1'')]]\<rparr>)"
    using resolver_errors[where w = ?w2 and st = "ex_state ex_disk_fresh" and key = "''key1''"
        and secret = None and r = "ex_registry_response 200 ''pending''" and hub_dir = None
        and j = "ex_registry_json ''pending''" and s = "JStr ''pending''"] p2 c2 j s n
    by (simp add: prod_eq_iff ex_state_def api_params_of_def)
  show ?thesis
    using p1 c1 p2 j s n r1 r2 by simp
qed

text \<open>
  The claim speaks of every status code outside 200 to 299. With the code 300 and a
  body that says \<^verbatim>\<open>ready\<close> the resolver raises nothing and the constructor returns
  a handle.
\<close>

theorem resolver_non_2xx_counterexample:
  "status_code (ex_registry_response 300 ''ready'') = 300
   \<and> http_post (ex_world (ex_registry_response 300 ''ready'') (ex_download None []))
        (hub_endpoint (ex_state ex_disk_fresh)) (api_params_of ''key1'' None)
       = Inr (ex_registry_response 300 ''ready'')
   \<and> fst (get_model_url_and_hash
             (ex_world (ex_registry_response 300 ''ready'') (ex_download None []))
             ''key1'' None (ex_state ex_disk_fresh))
       = Inr \<lparr>url = JStr ex_url, checksum = JStr ''abc123''\<rparr>
   \<and> fst (hub_model_init
             (ex_world (ex_registry_response 300 ''ready'') (ex_download None []))
             ''key1'' None None (ex_state ex_disk_fresh))
       = Inr ex_handle"
  by (simp add: ex_defs get_model_url_and_hash_def hub_model_init_def requests_post_def
      raise_for_status_def api_params_of_def subscript_def Let_def os_path_join_def
      get_default_hub_dir_def)

text \<open>
  C1. The claim does not hold of the code: when the response has no
  \<^verbatim>\<open>content-length\<close> header, \<^verbatim>\<open>_save_and_verify_model\<close> returns right after
  writing the body, before the digest is computed. Here the server sends an archive
  whose digest is not the expected one: without the header \<^verbatim>\<open>download_model\<close>
  succeeds and the cache holds the files of that archive; with the header the same body
  is refused.
\<close>

theorem download_model_unverified:
  "sha256 (ex_world (ex_registry_response 200 ''ready'') (ex_download None ''PK other archive''))
      ''PK other archive'' = ''000000''
   \<and> checksum (model_url_and_hash ex_handle) = JStr ''abc123''
   \<and> fst (download_model
             (ex_world (ex_registry_response 200 ''ready'') (ex_download None ''PK other archive''))
             ex_handle TF True (ex_state ex_disk_fresh))
       = Inr ex_dir
   \<and> disk (snd (download_model
             (ex_world (ex_registry_response 200 ''ready'') (ex_download None ''PK other archive''))
             ex_handle TF True (ex_state ex_disk_fresh)))
        (ex_dir @ [''pipeline.config''])
       = Some (File ''other config'')
   \<and> fst (download_model
             (ex_world (ex_registry_response 200 ''ready'')
                (ex_download (Some ''16'') ''PK other archive''))
             ex_handle TF True (ex_state ex_disk_fresh))
       = Inl (RuntimeError (Checksum_mismatch ''000000'' (JStr ''abc123'')))"
  by (simp add: ex_defs fs_defs run_defs)

text \<open>
  C9, as the code has it. Let \<^verbatim>\<open>label_map.pbtxt\<close> be a file of ASCII bytes
  whose lines are those of a list of records, each with lines that do not contain \<^verbatim>\<open>id\<close>, then an id line, then
  a name line, and after the last record lines that do not contain \<^verbatim>\<open>id\<close>. Then
  \<^verbatim>\<open>load_label_map\<close> returns a mapping whose keys are exactly the ids of the records;
  it sends the id of a record to \<open>{id, name}\<close> of that record when no later record has
  the same id, so every id to its record when the ids are distinct.
\<close>

theorem load_label_map_records:
  assumes "read_file (disk st) (model_dir self @ [''label_map.pbtxt'']) = Inr c"
    and "is_ascii c"
    and "text_lines (universal_newlines False c) = concat (map record_lines recs) @ rest"
    and "\<forall>r \<in> set recs. record_ok r"
    and "\<forall>l \<in> set rest. \<not> sublist ''id'' l"
  shows "\<exists>m. load_label_map w self st = Inr m
              \<and> dom m = rec_id ` set recs
              \<and> (\<forall>rs1 r rs2. recs = rs1 @ r # rs2 \<and> rec_id r \<notin> rec_id ` set rs2
                    \<longrightarrow> m (rec_id r) = Some (label_of r))
              \<and> (distinct (map rec_id recs)
                    \<longrightarrow> (\<forall>r \<in> set recs. m (rec_id r) = Some (label_of r)))"
proof -
  let ?m = "fold assign recs Map.empty"
  have res: "load_label_map w self st = Inr ?m"
    using assms
    by (simp add: load_label_map_def load_label_map_from_file_def Let_def os_path_join_def
        label_loop_records)
  have d: "dom ?m = rec_id ` set recs"
    by (simp add: fold_update_dom)
  have l: "?m (rec_id r) = Some (label_of r)"
    if "recs = rs1 @ r # rs2" "rec_id r \<notin> rec_id ` set rs2" for rs1 r rs2
    unfolding that(1) using that(2) by (rule fold_update_last)
  have dist: "?m (rec_id r) = Some (label_of r)" if "distinct (map rec_id recs)" "r \<in> set recs" for r
  proof -
    from that(2) obtain rs1 rs2 where s: "recs = rs1 @ r # rs2"
      by (auto simp: in_set_conv_decomp)
    with that(1) have "rec_id r \<notin> rec_id ` set rs2" by auto
    with s show ?thesis by (rule l)
  qed
  show ?thesis using res d l dist by blast
qed

text \<open>The file \<open>ex_label_text\<close> of the populated cache, with its two records.\<close>

theorem load_label_map_records_witness:
  "read_file (disk (ex_state ex_disk_cached)) (model_dir ex_handle @ [''label_map.pbtxt''])
     = Inr ex_label_text
   \<and> is_ascii ex_label_text
   \<and> text_lines (universal_newlines False ex_label_text)
       = concat (map record_lines [ex_record_cat, ex_record_dog]) @ [''}'' @ [CHR 0x0A]]
   \<and> record_ok ex_record_cat \<and> record_ok ex_record_dog
   \<and> \<not> sublist ''id'' (''}'' @ [CHR 0x0A])
   \<and> distinct (map rec_id [ex_record_cat, ex_record_dog])
   \<and> (\<exists>m. load_label_map
               (ex_world (ex_registry_response 200 ''ready'') (ex_download None ex_archive))
               ex_handle (ex_state ex_disk_cached) = Inr m
          \<and> dom m = {1, 2}
          \<and> m 1 = Some \<lparr>label_id = 1, label_name = ''cat''\<rparr>
          \<and> m 2 = Some \<lparr>label_id = 2, label_name = ''dog''\<rparr>)"
proof -
  have a: "read_file (disk (ex_state ex_disk_cached)) (model_dir ex_handle @ [''label_map.pbtxt''])
     = Inr ex_label_text"
    by (simp add: ex_defs fs_defs)
  have asc: "is_ascii ex_label_text"
    by (simp add: ex_label_text_def is_ascii_def)
  have b: "text_lines (universal_newlines False ex_label_text)
       = concat (map record_lines [ex_record_cat, ex_record_dog]) @ [''}'' @ [CHR 0x0A]]"
    by (simp add: ex_label_text_def record_lines_def ex_record_cat_def ex_record_dog_def)
  have c: "\<forall>r \<in> set [ex_record_cat, ex_record_dog]. record_ok r"
    by (simp add: ex_record_cat_ok ex_record_dog_ok)
  have d: "\<forall>l \<in> set [''}'' @ [CHR 0x0A]]. \<not> sublist ''id'' l"
    by (simp add: sublist_code(3))
  have e: "distinct (map rec_id [ex_record_cat, ex_record_dog])"
    by (simp add: ex_record_cat_def ex_record_dog_def)
  from load_label_map_records[OF a asc b c d,
      where w = "ex_world (ex_registry_response 200 ''ready'') (ex_download None ex_archive)"]
    e
  obtain m where
    m: "load_label_map
          (ex_world (ex_registry_response 200 ''ready'') (ex_download None ex_archive))
          ex_handle (ex_state ex_disk_cached) = Inr m"
      "dom m = rec_id ` set [ex_record_cat, ex_record_dog]"
      "\<forall>r \<in> set [ex_record_cat, ex_record_dog]. m (rec_id r) = Some (label_of r)"
    by blast
  have "dom m = {1, 2}"
    using m(2) by (auto simp: ex_record_cat_def ex_record_dog_def)
  moreover have "m 1 = Some \<lparr>label_id = 1, label_name = ''cat''\<rparr>"
    using m(3) by (simp add: ex_record_cat_def label_of_def)
  moreover have "m 2 = Some \<lparr>label_id = 2, label_name = ''dog''\<rparr>"
    using m(3) by (simp add: ex_record_dog_def label_of_def)
  ultimately show ?thesis
    using a asc b c d e m(1) by (simp add: ex_record_cat_ok ex_record_dog_ok sublist_code(3))
qed

text \<open>
  The claim sends the id of every record to that record. In a file where the id 1
  stands in two records, with the names \<^verbatim>\<open>cat\<close> and \<^verbatim>\<open>dog\<close>, the mapping
  sends 1 to the second one: the dictionary is assigned once more at the same key.
\<close>

theorem load_label_map_duplicate_id_counterexample:
  "is_ascii ex_label_text_twice
   \<and> text_lines (universal_newlines False ex_label_text_twice)
     = [''id: 1'' @ [CHR 0x0A], ''name: '' @ [CHR 0x27] @ ''cat'' @ [CHR 0x27] @ [CHR 0x0A],
        ''id: 1'' @ [CHR 0x0A], ''name: '' @ [CHR 0x27] @ ''dog'' @ [CHR 0x27] @ [CHR 0x0A]]
   \<and> id_line_of 1 (''id: 1'' @ [CHR 0x0A])
   \<and> name_line_of ''cat'' (''name: '' @ [CHR 0x27] @ ''cat'' @ [CHR 0x27] @ [CHR 0x0A])
   \<and> name_line_of ''dog'' (''name: '' @ [CHR 0x27] @ ''dog'' @ [CHR 0x27] @ [CHR 0x0A])
   \<and> map_sum id (\<lambda>m. m 1)
        (load_label_map
           (ex_world (ex_registry_response 200 ''ready'') (ex_download None ex_archive))
           ex_handle
           (ex_state (ex_disk_cached(ex_dir @ [''label_map.pbtxt''] \<mapsto> File ex_label_text_twice))))
       = Inr (Some \<lparr>label_id = 1, label_name = ''dog''\<rparr>)
   \<and> \<lparr>label_id = 1, label_name = ''dog''\<rparr> \<noteq> \<lparr>label_id = 1, label_name = ''cat''\<rparr>"
proof -
  have i: "id_line_of 1 (''id: 1'' @ [CHR 0x0A])"
    unfolding id_line_of_def
    apply (intro conjI)
     apply (simp add: sublist_code(3))
    apply (rule exI[of _ "''id''"], rule exI[of _ "'' 1'' @ [CHR 0x0A]"])
    apply (simp add: label_defs)
    done
  have n1: "name_line_of ''cat'' (''name: '' @ [CHR 0x27] @ ''cat'' @ [CHR 0x27] @ [CHR 0x0A])"
    unfolding name_line_of_def
    apply (rule exI[of _ "''name''"],
        rule exI[of _ "'' '' @ [CHR 0x27] @ ''cat'' @ [CHR 0x27] @ [CHR 0x0A]"])
    apply (simp add: label_defs)
    done
  have n2: "name_line_of ''dog'' (''name: '' @ [CHR 0x27] @ ''dog'' @ [CHR 0x27] @ [CHR 0x0A])"
    unfolding name_line_of_def
    apply (rule exI[of _ "''name''"],
        rule exI[of _ "'' '' @ [CHR 0x27] @ ''dog'' @ [CHR 0x27] @ [CHR 0x0A]"])
    apply (simp add: label_defs)
    done
  have t: "text_lines (universal_newlines False ex_label_text_twice)
     = [''id: 1'' @ [CHR 0x0A], ''name: '' @ [CHR 0x27] @ ''cat'' @ [CHR 0x27] @ [CHR 0x0A],
        ''id: 1'' @ [CHR 0x0A], ''name: '' @ [CHR 0x27] @ ''dog'' @ [CHR 0x27] @ [CHR 0x0A]]"
    by (simp add: ex_label_text_twice_def)
  have r: "map_sum id (\<lambda>m. m 1)
        (load_label_map
           (ex_world (ex_registry_response 200 ''ready'') (ex_download None ex_archive))
           ex_handle
           (ex_state (ex_disk_cached(ex_dir @ [''label_map.pbtxt''] \<mapsto> File ex_label_text_twice))))
       = Inr (Some \<lparr>label_id = 1, label_name = ''dog''\<rparr>)"
    by (simp add: ex_defs fs_defs label_defs ex_label_text_twice_def)
  have asc: "is_ascii ex_label_text_twice"
    by (simp add: ex_label_text_twice_def is_ascii_def)
  show ?thesis using asc i n1 n2 t r by simp
qed

end
